theory Spec2Isabelle
  imports Complex_Main
begin

text \<open>
  A shallow embedding of the model lifecycle and dispatch code: the rate limiter of
  the API server, the model classes, the model manager and the trainer. Every
  method becomes a function that takes the object it works on and returns its
  result, or the error it throws, together with the object as the call leaves it.
  Whatever a call reads from outside (the clock, the file system, the model
  runtimes) is an argument; one call reads the clock into one value \<open>now\<close>. Calls
  of the logger change no result and are left out.
\<close>

section \<open>Rate limiter (\<open>rateLimiter\<close>, src/config/config.js lines 725-752)\<close>

text \<open>
  The middleware factory \<open>rateLimiter(options)\<close> closes over a \<open>Map\<close> from the
  client address to the array of the times of that client's admitted requests. One
  call of the middleware reads \<open>req.ip\<close> and \<open>Date.now()\<close>; both are arguments
  here, and the \<open>Map\<close> is passed in and returned. Times and \<open>windowMs\<close> are
  integers (milliseconds); \<open>max\<close> is a number of requests. The result \<open>True\<close> is
  the call of \<open>next()\<close>, \<open>False\<close> is the 429 response.
\<close>

record rl_options =
  windowMs :: int
  max_req :: nat

type_synonym requests = "string \<rightharpoonup> int list"

definition timestamps :: "requests \<Rightarrow> string \<Rightarrow> int list" where
  "timestamps requests ip = (case requests ip of None \<Rightarrow> [] | Some ts \<Rightarrow> ts)"

definition rateLimiter :: "rl_options \<Rightarrow> requests \<Rightarrow> string \<Rightarrow> int \<Rightarrow> bool \<times> requests" where
  "rateLimiter options requests ip now =
     (let requests1 = (if requests ip = None then requests(ip \<mapsto> []) else requests);
          userRequests = filter (\<lambda>time. now - time < windowMs options) (timestamps requests1 ip)
      in if max_req options \<le> length userRequests then (False, requests1)
         else (True, requests1(ip \<mapsto> userRequests @ [now])))"

text \<open>
  The requests a server receives, in order, each with the client address and the
  clock value read for it; \<open>serve\<close> runs the middleware once per request on the
  \<open>Map\<close> the previous request left and collects the decisions.
\<close>

fun serve :: "rl_options \<Rightarrow> requests \<Rightarrow> (string \<times> int) list \<Rightarrow> bool list \<times> requests" where
  "serve options requests [] = ([], requests)"
| "serve options requests ((ip, now) # rest) =
     (case rateLimiter options requests ip now of
        (ok, requests1) \<Rightarrow>
          (case serve options requests1 rest of
             (oks, requests2) \<Rightarrow> (ok # oks, requests2)))"

text \<open>The decisions taken for the requests of one client, in order.\<close>

definition decisions_for :: "string \<Rightarrow> rl_options \<Rightarrow> requests \<Rightarrow> (string \<times> int) list \<Rightarrow> bool list" where
  "decisions_for ip options requests reqs =
     map snd (filter (\<lambda>p. fst (fst p) = ip) (zip reqs (fst (serve options requests reqs))))"

text \<open>
  The admission rule in the specification's words, for comparison: timestamps
  older than \<open>now - windowMs\<close> are pruned, so one that is exactly \<open>windowMs\<close> old
  still counts.
\<close>

definition admit_spec :: "rl_options \<Rightarrow> requests \<Rightarrow> string \<Rightarrow> int \<Rightarrow> bool \<times> requests" where
  "admit_spec options requests ip now =
     (let remaining = filter (\<lambda>time. \<not> time < now - windowMs options) (timestamps requests ip)
      in if max_req options \<le> length remaining then (False, requests(ip \<mapsto> remaining))
         else (True, requests(ip \<mapsto> remaining @ [now])))"

section \<open>Values, errors and the environment\<close>

text \<open>
  Values read from JSON files and option objects. \<open>JArray\<close> is a JavaScript array,
  \<open>JObject\<close> an object (each key once); a property that is absent reads as
  \<open>undefined\<close>, which is \<open>None\<close> here.
\<close>

datatype json =
    JNull
  | JBool bool
  | JNum rat
  | JStr string
  | JArray "json list"
  | JObject "(string \<times> json) list"

type_synonym options = "string \<rightharpoonup> json"

text \<open>JavaScript truthiness, and \<open>v || d\<close> for a property \<open>v\<close> that may be absent.\<close>

fun truthy :: "json \<Rightarrow> bool" where
  "truthy JNull = False"
| "truthy (JBool b) = b"
| "truthy (JNum r) = (r \<noteq> 0)"
| "truthy (JStr s) = (s \<noteq> [])"
| "truthy (JArray xs) = True"
| "truthy (JObject kvs) = True"

definition or_else :: "json option \<Rightarrow> json \<Rightarrow> json" where
  "or_else v d = (case v of None \<Rightarrow> d | Some x \<Rightarrow> if truthy x then x else d)"

text \<open>
  Every error of the source is a JavaScript \<open>Error\<close> told apart by its message;
  \<open>message\<close> gives the text the source builds. \<open>Thrown\<close> is an error raised by a
  library (file system, JSON parser, model runtime), \<open>TypeError\<close> one raised by the
  language itself.
\<close>

datatype error =
    NotInitialized
  | ModelNotFound string
  | PathNotFound string
  | FileNotFound string
  | Thrown string
  | TypeError string

fun message :: "error \<Rightarrow> string" where
  "message NotInitialized = ''ModelManager belum diinisialisasi, panggil init() terlebih dahulu''"
| "message (ModelNotFound modelName) = ''Model '' @ [CHR 0x27] @ modelName @ [CHR 0x27] @ '' tidak ditemukan''"
| "message (PathNotFound modelPath) = ''Model path tidak ditemukan: '' @ modelPath"
| "message (FileNotFound filePath) = ''File data pelatihan tidak ditemukan: '' @ filePath"
| "message (Thrown msg) = msg"
| "message (TypeError msg) = msg"

text \<open>
  What the code calls outside the repository: the file system (\<open>fs\<close>), \<open>path\<close>,
  \<open>JSON.parse\<close> and the three model runtimes. \<open>'b\<close> is the type of a runtime's
  instance (a pipeline, an \<open>LLModel\<close>, an inference session). A call that can throw
  returns a sum. Each library call receives the model path; the other constructor
  arguments are constants of the configuration. \<open>call_pipeline\<close> gives
  \<open>result[0].generated_text\<close> of a pipeline call, \<open>LLModel_generate\<close> gives
  \<open>result.text\<close>, and \<open>generateTokens\<close> is the simulated token stream of
  \<open>GptjModel._generateTokens\<close> (it draws from \<open>Math.random\<close>).
\<close>

record 'b env =
  existsSync :: "string \<Rightarrow> bool"
  readdirSync :: "string \<Rightarrow> error + string list"
  readFileSync :: "string \<Rightarrow> error + string"
  mkdirSync :: "string \<Rightarrow> error option"
  writeFileSync :: "string \<Rightarrow> json \<Rightarrow> error option"
  JSON_parse :: "string \<Rightarrow> error + json"
  path_join :: "string \<Rightarrow> string \<Rightarrow> string"
  path_dirname :: "string \<Rightarrow> string"
  pipeline :: "string \<Rightarrow> error + 'b"
  call_pipeline :: "'b \<Rightarrow> string \<Rightarrow> options \<Rightarrow> error + string"
  new_LLModel :: "string \<Rightarrow> error + 'b"
  LLModel_load :: "'b \<Rightarrow> error + 'b"
  LLModel_generate :: "'b \<Rightarrow> string \<Rightarrow> options \<Rightarrow> error + string"
  InferenceSession_create :: "string \<Rightarrow> error + 'b"
  generateTokens :: "nat list \<Rightarrow> options \<Rightarrow> nat list"

section \<open>Model handles (BaseModel, LlamaModel, MistralModel, GptjModel)\<close>

text \<open>
  One record for the three subclasses of \<open>BaseModel\<close>, told apart by \<open>kind\<close>.
  \<open>backend\<close> is the runtime instance the handle owns: \<open>this.model\<close> of a
  \<open>LlamaModel\<close>, \<open>this.pipeline\<close> of a \<open>MistralModel\<close>, \<open>this.session\<close> of a
  \<open>GptjModel\<close>; \<open>None\<close> is \<open>null\<close>. \<open>tokenizer\<close> says whether
  \<open>this.tokenizer\<close> of a \<open>GptjModel\<close> is set. A method returns its result, or
  the error it throws, and the handle as the call leaves it. \<open>GptjModel.load\<close>
  also looks for \<open>tokenizer.json\<close>, but only to log a warning.
\<close>

datatype kind = LlamaModel | MistralModel | GptjModel

record model_config =
  path :: string
  contextSize :: nat
  batchSize :: nat
  threads :: nat

record 'b handle =
  kind :: kind
  config :: model_config
  modelPath :: string
  isLoaded :: bool
  backend :: "'b option"
  tokenizer :: bool

definition new_model :: "kind \<Rightarrow> model_config \<Rightarrow> 'b handle" where
  "new_model k cfg =
     \<lparr>kind = k, config = cfg, modelPath = path cfg, isLoaded = False, backend = None,
      tokenizer = False\<rparr>"

definition load :: "'b env \<Rightarrow> 'b handle \<Rightarrow> (error + bool) \<times> 'b handle" where
  "load env h =
     (if \<not> existsSync env (modelPath h)
      then (Inl (PathNotFound (modelPath h)), h\<lparr>isLoaded := False\<rparr>)
      else (case kind h of
          MistralModel \<Rightarrow>
            (case pipeline env (modelPath h) of
               Inl e \<Rightarrow> (Inl e, h\<lparr>isLoaded := False\<rparr>)
             | Inr p \<Rightarrow> (Inr True, h\<lparr>backend := Some p, isLoaded := True\<rparr>))
        | LlamaModel \<Rightarrow>
            (case new_LLModel env (modelPath h) of
               Inl e \<Rightarrow> (Inl e, h\<lparr>isLoaded := False\<rparr>)
             | Inr m \<Rightarrow>
                 (case LLModel_load env m of
                    Inl e \<Rightarrow> (Inl e, h\<lparr>backend := Some m, isLoaded := False\<rparr>)
                  | Inr m' \<Rightarrow> (Inr True, h\<lparr>backend := Some m', isLoaded := True\<rparr>)))
        | GptjModel \<Rightarrow>
            (case InferenceSession_create env (path_join env (modelPath h) ''model.onnx'') of
               Inl e \<Rightarrow> (Inl e, h\<lparr>isLoaded := False\<rparr>)
             | Inr s \<Rightarrow> (Inr True, h\<lparr>backend := Some s, tokenizer := True, isLoaded := True\<rparr>))))"

text \<open>The default options of \<open>generate\<close>, and the spread \<open>{...defaultOptions, ...options}\<close>.\<close>

definition defaultOptions :: "kind \<Rightarrow> options" where
  "defaultOptions k =
     (case k of
        MistralModel \<Rightarrow>
          [''temperature'' \<mapsto> JNum (7 / 10), ''max_new_tokens'' \<mapsto> JNum 512,
           ''top_p'' \<mapsto> JNum (95 / 100), ''top_k'' \<mapsto> JNum 40,
           ''repetition_penalty'' \<mapsto> JNum (11 / 10), ''do_sample'' \<mapsto> JBool True]
      | _ \<Rightarrow>
          [''temperature'' \<mapsto> JNum (7 / 10), ''maxTokens'' \<mapsto> JNum 512,
           ''topP'' \<mapsto> JNum (95 / 100), ''topK'' \<mapsto> JNum 40,
           ''repetitionPenalty'' \<mapsto> JNum (11 / 10)])"

definition encode :: "string \<Rightarrow> nat list" where
  "encode text = [0, 1, 2, 3]"

definition decode :: "nat list \<Rightarrow> string" where
  "decode tokens = ''Teks hasil decode dari GPT-J''"

text \<open>
  The body of \<open>generate\<close> after the load check. A handle that says it is loaded
  and owns no instance cannot arise from the methods; there the call of \<open>null\<close>
  is a \<open>TypeError\<close>.
\<close>

definition generate_loaded :: "'b env \<Rightarrow> 'b handle \<Rightarrow> string \<Rightarrow> options \<Rightarrow> error + string" where
  "generate_loaded env h prompt options =
     (let mergedOptions = defaultOptions (kind h) ++ options in
      case kind h of
        MistralModel \<Rightarrow>
          (case backend h of
             None \<Rightarrow> Inl (TypeError ''this.pipeline is not a function'')
           | Some p \<Rightarrow>
               (case call_pipeline env p prompt mergedOptions of
                  Inl e \<Rightarrow> Inl e
                | Inr generated_text \<Rightarrow> Inr (drop (length prompt) generated_text)))
      | LlamaModel \<Rightarrow>
          (case backend h of
             None \<Rightarrow> Inl (TypeError (''Cannot read properties of null (reading '' @ [CHR 0x27] @ ''generate'' @ [CHR 0x27] @ '')''))
           | Some m \<Rightarrow> LLModel_generate env m prompt mergedOptions)
      | GptjModel \<Rightarrow>
          (if \<not> tokenizer h
           then Inl (TypeError (''Cannot read properties of null (reading '' @ [CHR 0x27] @ ''encode'' @ [CHR 0x27] @ '')''))
           else Inr (decode (generateTokens env (encode prompt) mergedOptions))))"

definition generate :: "'b env \<Rightarrow> 'b handle \<Rightarrow> string \<Rightarrow> options \<Rightarrow> (error + string) \<times> 'b handle" where
  "generate env h prompt options =
     (if \<not> isLoaded h
      then (case load env h of
              (Inl e, h1) \<Rightarrow> (Inl e, h1)
            | (Inr ok, h1) \<Rightarrow> (generate_loaded env h1 prompt options, h1))
      else (generate_loaded env h prompt options, h))"

text \<open>
  \<open>train\<close>, \<open>evaluate\<close> and \<open>save\<close> are simulated in the source: the first two
  return fixed figures, \<open>save\<close> writes a metadata file. \<open>now\<close> is
  \<open>new Date().toISOString()\<close>.
\<close>

record train_result =
  status :: string
  epochs :: json
  loss :: rat
  accuracy :: rat
  timestamp :: string

definition train :: "'b handle \<Rightarrow> json list \<Rightarrow> options \<Rightarrow> string \<Rightarrow> (error + train_result) \<times> 'b handle" where
  "train h trainingData options now =
     (Inr \<lparr>status = ''success'',
           epochs = or_else (options ''epochs'') (JNum 1),
           loss = (case kind h of LlamaModel \<Rightarrow> 5 / 100 | MistralModel \<Rightarrow> 6 / 100 | GptjModel \<Rightarrow> 7 / 100),
           accuracy = (case kind h of LlamaModel \<Rightarrow> 95 / 100 | MistralModel \<Rightarrow> 94 / 100 | GptjModel \<Rightarrow> 91 / 100),
           timestamp = now\<rparr>, h)"

record metrics =
  perplexity :: rat
  eval_accuracy :: rat
  f1Score :: rat
  eval_timestamp :: string

definition evaluate :: "'b handle \<Rightarrow> json list \<Rightarrow> string \<Rightarrow> (error + metrics) \<times> 'b handle" where
  "evaluate h evalData now =
     (Inr (case kind h of
             LlamaModel \<Rightarrow>
               \<lparr>perplexity = 345 / 100, eval_accuracy = 92 / 100, f1Score = 88 / 100, eval_timestamp = now\<rparr>
           | MistralModel \<Rightarrow>
               \<lparr>perplexity = 322 / 100, eval_accuracy = 93 / 100, f1Score = 89 / 100, eval_timestamp = now\<rparr>
           | GptjModel \<Rightarrow>
               \<lparr>perplexity = 375 / 100, eval_accuracy = 88 / 100, f1Score = 86 / 100, eval_timestamp = now\<rparr>),
      h)"

definition modelInfo :: "'b handle \<Rightarrow> string \<Rightarrow> json" where
  "modelInfo h now =
     JObject
       [(''type'', JStr (case kind h of LlamaModel \<Rightarrow> ''LLaMA'' | MistralModel \<Rightarrow> ''Mistral'' | GptjModel \<Rightarrow> ''GPT-J'')),
        (''version'', JStr (case kind h of LlamaModel \<Rightarrow> ''2'' | MistralModel \<Rightarrow> ''7B'' | GptjModel \<Rightarrow> ''6B'')),
        (''timestamp'', JStr now),
        (''config'', JObject
           [(''path'', JStr (path (config h))),
            (''contextSize'', JNum (of_nat (contextSize (config h)))),
            (''batchSize'', JNum (of_nat (batchSize (config h)))),
            (''threads'', JNum (of_nat (threads (config h))))])]"

definition save :: "'b env \<Rightarrow> 'b handle \<Rightarrow> string option \<Rightarrow> string \<Rightarrow> (error + bool) \<times> 'b handle" where
  "save env h savePath now =
     (let targetPath =
            (case savePath of
               None \<Rightarrow> path_join env (modelPath h) ''checkpoint''
             | Some p \<Rightarrow> if p = [] then path_join env (modelPath h) ''checkpoint'' else p);
          made =
            (if \<not> existsSync env (path_dirname env targetPath)
             then mkdirSync env (path_dirname env targetPath) else None)
      in case made of
           Some e \<Rightarrow> (Inl e, h)
         | None \<Rightarrow>
             (case writeFileSync env (targetPath @ ''.meta.json'') (modelInfo h now) of
                Some e \<Rightarrow> (Inl e, h)
              | None \<Rightarrow> (Inr True, h)))"

definition unload :: "'b handle \<Rightarrow> (error + bool) \<times> 'b handle" where
  "unload h =
     (if isLoaded h \<and> backend h \<noteq> None
      then (Inr True,
            (case kind h of
               GptjModel \<Rightarrow> h\<lparr>backend := None, tokenizer := False, isLoaded := False\<rparr>
             | _ \<Rightarrow> h\<lparr>backend := None, isLoaded := False\<rparr>))
      else (Inr True, h))"

section \<open>Model manager (ModelManager, src/unnamed/part_000)\<close>

text \<open>
  \<open>this.models\<close> is a plain object created by \<open>{}\<close>. Its own properties are kept
  as a list of pairs in insertion order, the order of \<open>Object.entries\<close>. Reading
  \<open>this.models[key]\<close> follows the prototype chain: a key the object does not own is
  looked up in \<open>Object.prototype\<close>, whose properties (functions, and for
  \<open>__proto__\<close> the prototype object itself) are all truthy. The own keys are
  names an assignment \<open>this.models.name = ...\<close> can create, so \<open>__proto__\<close> is
  not among them.
\<close>

datatype 'm property = Own 'm | Inherited string

definition Object_prototype :: "string list" where
  "Object_prototype =
     [''constructor'', ''__defineGetter__'', ''__defineSetter__'', ''hasOwnProperty'',
      ''__lookupGetter__'', ''__lookupSetter__'', ''isPrototypeOf'', ''propertyIsEnumerable'',
      ''toString'', ''valueOf'', ''__proto__'', ''toLocaleString'']"

definition get_property :: "(string \<times> 'm) list \<Rightarrow> string \<Rightarrow> 'm property option" where
  "get_property obj key =
     (case map_of obj key of
        Some v \<Rightarrow> Some (Own v)
      | None \<Rightarrow> if key \<in> set Object_prototype then Some (Inherited key) else None)"

fun set_property :: "string \<Rightarrow> 'm \<Rightarrow> (string \<times> 'm) list \<Rightarrow> (string \<times> 'm) list" where
  "set_property key v [] = [(key, v)]"
| "set_property key v ((k, w) # obj) =
     (if k = key then (key, v) # obj else (k, w) # set_property key v obj)"

text \<open>\<open>String.prototype.toLowerCase\<close> on the letters A to Z.\<close>

definition lower_char :: "char \<Rightarrow> char" where
  "lower_char c =
     (case map_of (zip ''ABCDEFGHIJKLMNOPQRSTUVWXYZ'' ''abcdefghijklmnopqrstuvwxyz'') c of
        None \<Rightarrow> c
      | Some l \<Rightarrow> l)"

definition toLowerCase :: "string \<Rightarrow> string" where
  "toLowerCase s = map lower_char s"

record 'b manager =
  models :: "(string \<times> 'b handle) list"
  initialized :: bool

definition new_manager :: "'b manager" where
  "new_manager = \<lparr>models = [], initialized = False\<rparr>"

text \<open>\<open>config.models\<close>: the configuration of the three models.\<close>

record models_config =
  llama :: model_config
  mistral :: model_config
  gptj :: model_config

text \<open>
  \<open>init\<close>: the three constructors only copy fields of the configuration, so the
  \<open>catch\<close> branch of \<open>init\<close> is never taken.
\<close>

definition init :: "models_config \<Rightarrow> 'b manager \<Rightarrow> (error + bool) \<times> 'b manager" where
  "init cfg mm =
     (Inr True,
      mm\<lparr>models :=
           set_property ''gptj'' (new_model GptjModel (gptj cfg))
             (set_property ''mistral'' (new_model MistralModel (mistral cfg))
               (set_property ''llama'' (new_model LlamaModel (llama cfg)) (models mm))),
         initialized := True\<rparr>)"

definition getModel :: "'b manager \<Rightarrow> string \<Rightarrow> error + 'b handle property" where
  "getModel mm modelName =
     (if \<not> initialized mm then Inl NotInitialized
      else (case get_property (models mm) (toLowerCase modelName) of
              None \<Rightarrow> Inl (ModelNotFound modelName)
            | Some model \<Rightarrow> Inr model))"

definition getAllModels :: "'b manager \<Rightarrow> error + (string \<times> 'b handle) list" where
  "getAllModels mm = (if \<not> initialized mm then Inl NotInitialized else Inr (models mm))"

text \<open>
  \<open>generateFromAllModels\<close> starts \<open>generate\<close> on every entry and waits for all
  of them. Each call works on its own handle and writes its own key of \<open>results\<close>,
  so the calls are run here one after the other in the order of \<open>Object.entries\<close>.
  The \<open>then\<close> handler stores the text, the \<open>catch\<close> handler stores
  \<open>ERROR: \<close> followed by the message.
\<close>

record generation =
  gen_prompt :: string
  gen_results :: "string \<rightharpoonup> string"
  gen_timestamp :: string

fun generate_each ::
  "'b env \<Rightarrow> string \<Rightarrow> options \<Rightarrow> (string \<times> 'b handle) list \<Rightarrow> (string \<rightharpoonup> string) \<Rightarrow>
     (string \<times> 'b handle) list \<times> (string \<rightharpoonup> string)" where
  "generate_each env prompt options [] acc = ([], acc)"
| "generate_each env prompt options ((name, model) # rest) acc =
     (case generate env model prompt options of
        (Inr text, model1) \<Rightarrow>
          (case generate_each env prompt options rest (acc(name \<mapsto> text)) of
             (rest1, acc1) \<Rightarrow> ((name, model1) # rest1, acc1))
      | (Inl e, model1) \<Rightarrow>
          (case generate_each env prompt options rest (acc(name \<mapsto> ''ERROR: '' @ message e)) of
             (rest1, acc1) \<Rightarrow> ((name, model1) # rest1, acc1)))"

definition generateFromAllModels ::
  "'b env \<Rightarrow> 'b manager \<Rightarrow> string \<Rightarrow> options \<Rightarrow> string \<Rightarrow> (error + generation) \<times> 'b manager" where
  "generateFromAllModels env mm prompt options now =
     (if \<not> initialized mm then (Inl NotInitialized, mm)
      else (case generate_each env prompt options (models mm) Map.empty of
              (models1, res) \<Rightarrow>
                (Inr \<lparr>gen_prompt = prompt, gen_results = res, gen_timestamp = now\<rparr>,
                 mm\<lparr>models := models1\<rparr>)))"

text \<open>
  \<open>loadAllModels\<close> and \<open>unloadAllModels\<close> have the shape of
  \<open>generateFromAllModels\<close>: every entry gets \<open>success\<close> or \<open>ERROR: \<close> with the
  message.
\<close>

record all_report =
  all_status :: string
  all_results :: "string \<rightharpoonup> string"
  all_timestamp :: string

fun load_each ::
  "'b env \<Rightarrow> (string \<times> 'b handle) list \<Rightarrow> (string \<rightharpoonup> string) \<Rightarrow>
     (string \<times> 'b handle) list \<times> (string \<rightharpoonup> string)" where
  "load_each env [] acc = ([], acc)"
| "load_each env ((name, model) # rest) acc =
     (case load env model of
        (Inr ok, model1) \<Rightarrow>
          (case load_each env rest (acc(name \<mapsto> ''success'')) of
             (rest1, acc1) \<Rightarrow> ((name, model1) # rest1, acc1))
      | (Inl e, model1) \<Rightarrow>
          (case load_each env rest (acc(name \<mapsto> ''ERROR: '' @ message e)) of
             (rest1, acc1) \<Rightarrow> ((name, model1) # rest1, acc1)))"

definition loadAllModels :: "'b env \<Rightarrow> 'b manager \<Rightarrow> string \<Rightarrow> (error + all_report) \<times> 'b manager" where
  "loadAllModels env mm now =
     (if \<not> initialized mm then (Inl NotInitialized, mm)
      else (case load_each env (models mm) Map.empty of
              (models1, res) \<Rightarrow>
                (Inr \<lparr>all_status = ''success'', all_results = res, all_timestamp = now\<rparr>,
                 mm\<lparr>models := models1\<rparr>)))"

fun unload_each ::
  "(string \<times> 'b handle) list \<Rightarrow> (string \<rightharpoonup> string) \<Rightarrow>
     (string \<times> 'b handle) list \<times> (string \<rightharpoonup> string)" where
  "unload_each [] acc = ([], acc)"
| "unload_each ((name, model) # rest) acc =
     (case unload model of
        (Inr ok, model1) \<Rightarrow>
          (case unload_each rest (acc(name \<mapsto> ''success'')) of
             (rest1, acc1) \<Rightarrow> ((name, model1) # rest1, acc1))
      | (Inl e, model1) \<Rightarrow>
          (case unload_each rest (acc(name \<mapsto> ''ERROR: '' @ message e)) of
             (rest1, acc1) \<Rightarrow> ((name, model1) # rest1, acc1)))"

definition unloadAllModels :: "'b manager \<Rightarrow> string \<Rightarrow> (error + all_report) \<times> 'b manager" where
  "unloadAllModels mm now =
     (if \<not> initialized mm then (Inl NotInitialized, mm)
      else (case unload_each (models mm) Map.empty of
              (models1, res) \<Rightarrow>
                (Inr \<lparr>all_status = ''success'', all_results = res, all_timestamp = now\<rparr>,
                 mm\<lparr>models := models1\<rparr>)))"

section \<open>Trainer (src/training/trainer.js)\<close>

text \<open>\<open>config.training\<close>, and the object it is when spread into the options of \<open>train\<close>.\<close>

record training_config =
  training_batchSize :: nat
  training_epochs :: nat
  learningRate :: rat
  checkpointDir :: string
  dataDir :: string

definition trainingOptions :: "training_config \<Rightarrow> options" where
  "trainingOptions tcfg =
     [''batchSize'' \<mapsto> JNum (of_nat (training_batchSize tcfg)),
      ''epochs'' \<mapsto> JNum (of_nat (training_epochs tcfg)),
      ''learningRate'' \<mapsto> JNum (learningRate tcfg),
      ''checkpointDir'' \<mapsto> JStr (checkpointDir tcfg),
      ''dataDir'' \<mapsto> JStr (dataDir tcfg)]"

definition endsWith :: "string \<Rightarrow> string \<Rightarrow> bool" where
  "endsWith s suffix = (length suffix \<le> length s \<and> drop (length s - length suffix) s = suffix)"

definition loadTrainingData :: "'b env \<Rightarrow> string \<Rightarrow> error + json" where
  "loadTrainingData env filePath =
     (if \<not> existsSync env filePath then Inl (FileNotFound filePath)
      else (case readFileSync env filePath of
              Inl e \<Rightarrow> Inl e
            | Inr fileContent \<Rightarrow>
                (case JSON_parse env fileContent of
                   Inl e \<Rightarrow> Inl e
                 | Inr trainingData \<Rightarrow>
                     if trainingData = JNull
                     then Inl (TypeError (''Cannot read properties of null (reading '' @ [CHR 0x27] @ ''length''
                            @ [CHR 0x27] @ '')''))
                     else Inr trainingData)))"

definition findTrainingDataFiles :: "'b env \<Rightarrow> training_config \<Rightarrow> error + string list" where
  "findTrainingDataFiles env tcfg =
     (case readdirSync env (dataDir tcfg) of
        Inl e \<Rightarrow> Inl e
      | Inr names \<Rightarrow>
          Inr (map (path_join env (dataDir tcfg)) (filter (\<lambda>file. endsWith file ''.json'') names)))"

text \<open>
  \<open>mergedData.concat(data)\<close>: \<open>Array.prototype.concat\<close> appends the elements of an
  array argument and appends any other value as one element.
\<close>

definition array_concat :: "json list \<Rightarrow> json \<Rightarrow> json list" where
  "array_concat mergedData v = (case v of JArray xs \<Rightarrow> mergedData @ xs | _ \<Rightarrow> mergedData @ [v])"

fun merge_loop :: "'b env \<Rightarrow> string list \<Rightarrow> json list \<Rightarrow> error + json list" where
  "merge_loop env [] mergedData = Inr mergedData"
| "merge_loop env (file # files) mergedData =
     (case loadTrainingData env file of
        Inl e \<Rightarrow> Inl e
      | Inr v \<Rightarrow> merge_loop env files (array_concat mergedData v))"

definition mergeTrainingData :: "'b env \<Rightarrow> string list \<Rightarrow> error + json list" where
  "mergeTrainingData env files = merge_loop env files []"

text \<open>
  \<open>prepareTrainingData\<close> reads \<open>input\<close>, \<open>prompt\<close>, \<open>output\<close>, \<open>completion\<close>
  and \<open>metadata\<close> of every item; none of these is a property of a prototype, so
  only an object can have them, and reading them from \<open>null\<close> is a \<open>TypeError\<close>.
\<close>

definition get_field :: "json \<Rightarrow> string \<Rightarrow> json option" where
  "get_field item key = (case item of JObject kvs \<Rightarrow> map_of kvs key | _ \<Rightarrow> None)"

definition prepare_item :: "json \<Rightarrow> error + json" where
  "prepare_item item =
     (if item = JNull
      then Inl (TypeError (''Cannot read properties of null (reading '' @ [CHR 0x27] @ ''input''
             @ [CHR 0x27] @ '')''))
      else Inr (JObject
        [(''input'', or_else (get_field item ''input'') (or_else (get_field item ''prompt'') (JStr ''''))),
         (''output'', or_else (get_field item ''output'') (or_else (get_field item ''completion'') (JStr ''''))),
         (''metadata'', or_else (get_field item ''metadata'') (JObject []))]))"

fun prepareTrainingData :: "json list \<Rightarrow> string \<Rightarrow> error + json list" where
  "prepareTrainingData [] modelType = Inr []"
| "prepareTrainingData (item # data) modelType =
     (case prepare_item item of
        Inl e \<Rightarrow> Inl e
      | Inr x \<Rightarrow>
          (case prepareTrainingData data modelType of
             Inl e \<Rightarrow> Inl e
           | Inr xs \<Rightarrow> Inr (x # xs)))"

datatype training_report =
    AllModels "string \<rightharpoonup> train_result" string
  | OneModel string train_result string

text \<open>The loop of \<open>trainModel\<close> over all models; \<open>train\<close> leaves a handle as it is.\<close>

fun train_each ::
  "(string \<times> 'b handle) list \<Rightarrow> json list \<Rightarrow> options \<Rightarrow> string \<Rightarrow> (string \<rightharpoonup> train_result) \<Rightarrow>
     error + (string \<rightharpoonup> train_result)" where
  "train_each [] trainingData options now acc = Inr acc"
| "train_each ((name, model) # rest) trainingData options now acc =
     (case prepareTrainingData trainingData name of
        Inl e \<Rightarrow> Inl e
      | Inr preparedData \<Rightarrow>
          (case fst (train model preparedData options now) of
             Inl e \<Rightarrow> Inl e
           | Inr r \<Rightarrow> train_each rest trainingData options now (acc(name \<mapsto> r))))"

definition trainModel ::
  "models_config \<Rightarrow> training_config \<Rightarrow> 'b manager \<Rightarrow> string \<Rightarrow> json list \<Rightarrow> options \<Rightarrow> string \<Rightarrow>
     (error + training_report) \<times> 'b manager" where
  "trainModel cfg tcfg mm modelType trainingData options now =
     (case (if \<not> initialized mm then init cfg mm else (Inr True, mm)) of
        (Inl e, mm1) \<Rightarrow> (Inl e, mm1)
      | (Inr ok, mm1) \<Rightarrow>
          (let mergedOptions = trainingOptions tcfg ++ options in
           if toLowerCase modelType = ''all''
           then (case getAllModels mm1 of
                   Inl e \<Rightarrow> (Inl e, mm1)
                 | Inr entries \<Rightarrow>
                     (case train_each entries trainingData mergedOptions now Map.empty of
                        Inl e \<Rightarrow> (Inl e, mm1)
                      | Inr rs \<Rightarrow> (Inr (AllModels rs now), mm1)))
           else (case getModel mm1 modelType of
                   Inl e \<Rightarrow> (Inl e, mm1)
                 | Inr model \<Rightarrow>
                     (case prepareTrainingData trainingData modelType of
                        Inl e \<Rightarrow> (Inl e, mm1)
                      | Inr preparedData \<Rightarrow>
                          (case model of
                             Inherited key \<Rightarrow> (Inl (TypeError ''model.train is not a function''), mm1)
                           | Own m \<Rightarrow>
                               (case fst (train m preparedData mergedOptions now) of
                                  Inl e \<Rightarrow> (Inl e, mm1)
                                | Inr r \<Rightarrow> (Inr (OneModel modelType r now), mm1)))))))"

text \<open>
  One firing of the callback given to \<open>setInterval\<close>. \<open>firing_body\<close> is the
  \<open>try\<close> block, \<open>firing\<close> adds the \<open>catch\<close>, which logs the error. The
  result says which line is logged; \<open>Inl\<close> would be an error that leaves the
  callback.
\<close>

datatype firing_log = Skipped | Completed | Failed error

definition firing_body ::
  "'b env \<Rightarrow> models_config \<Rightarrow> training_config \<Rightarrow> 'b manager \<Rightarrow> string \<Rightarrow> string \<Rightarrow>
     (error + firing_log) \<times> 'b manager" where
  "firing_body env cfg tcfg mm modelType now =
     (case findTrainingDataFiles env tcfg of
        Inl e \<Rightarrow> (Inl e, mm)
      | Inr files \<Rightarrow>
          if length files = 0 then (Inr Skipped, mm)
          else (case mergeTrainingData env files of
                  Inl e \<Rightarrow> (Inl e, mm)
                | Inr mergedData \<Rightarrow>
                    (case trainModel cfg tcfg mm modelType mergedData Map.empty now of
                       (Inl e, mm1) \<Rightarrow> (Inl e, mm1)
                     | (Inr r, mm1) \<Rightarrow> (Inr Completed, mm1))))"

definition firing ::
  "'b env \<Rightarrow> models_config \<Rightarrow> training_config \<Rightarrow> 'b manager \<Rightarrow> string \<Rightarrow> string \<Rightarrow>
     (error + firing_log) \<times> 'b manager" where
  "firing env cfg tcfg mm modelType now =
     (case firing_body env cfg tcfg mm modelType now of
        (Inl e, mm1) \<Rightarrow> (Inr (Failed e), mm1)
      | (Inr l, mm1) \<Rightarrow> (Inr l, mm1))"

text \<open>
  The trainer with the timers of the process. \<open>setInterval\<close> registers a timer
  under a new id, \<open>clearInterval\<close> removes it, and \<open>tick\<close> is one expiry of a
  timer: it runs the callback if the timer is still registered. An error that left
  the callback would be an unhandled rejection, which ends the process
  (\<open>running\<close> becomes false and nothing fires any more).
\<close>

record 'b trainer =
  modelManager :: "'b manager"
  intervals :: "(nat \<times> string \<times> int) list"
  nextIntervalId :: nat
  running :: bool

record schedule =
  intervalId :: nat
  sched_modelType :: string
  sched_interval :: int
  sched_timestamp :: string

definition schedulePeriodicTraining ::
  "'b trainer \<Rightarrow> string \<Rightarrow> int \<Rightarrow> string \<Rightarrow> (error + schedule) \<times> 'b trainer" where
  "schedulePeriodicTraining tr modelType interval now =
     (Inr \<lparr>intervalId = nextIntervalId tr, sched_modelType = modelType,
           sched_interval = interval, sched_timestamp = now\<rparr>,
      tr\<lparr>intervals := intervals tr @ [(nextIntervalId tr, modelType, interval)],
         nextIntervalId := Suc (nextIntervalId tr)\<rparr>)"

definition cancelPeriodicTraining :: "'b trainer \<Rightarrow> nat \<Rightarrow> (error + bool) \<times> 'b trainer" where
  "cancelPeriodicTraining tr ident =
     (Inr True, tr\<lparr>intervals := filter (\<lambda>t. fst t \<noteq> ident) (intervals tr)\<rparr>)"

definition tick ::
  "'b env \<Rightarrow> models_config \<Rightarrow> training_config \<Rightarrow> 'b trainer \<Rightarrow> nat \<Rightarrow> string \<Rightarrow>
     firing_log option \<times> 'b trainer" where
  "tick env cfg tcfg tr ident now =
     (if \<not> running tr then (None, tr)
      else (case map_of (intervals tr) ident of
              None \<Rightarrow> (None, tr)
            | Some (modelType, interval) \<Rightarrow>
                (case firing env cfg tcfg (modelManager tr) modelType now of
                   (Inr l, mm1) \<Rightarrow> (Some l, tr\<lparr>modelManager := mm1\<rparr>)
                 | (Inl e, mm1) \<Rightarrow> (None, tr\<lparr>modelManager := mm1, running := False\<rparr>))))"

section \<open>The managers a process can have\<close>

text \<open>
  The module exports one \<open>ModelManager\<close>, created by the constructor with no
  model and \<open>initialized = false\<close>. The server and the trainer change it only
  through the calls below: \<open>init\<close>, the three fan-out methods, \<open>trainModel\<close>
  (which calls \<open>init\<close> when needed), and \<open>load\<close>, \<open>generate\<close> or \<open>unload\<close>
  called on the handle \<open>getModel\<close> returned, which changes that handle in place.
  \<open>calls\<close> is the manager after a sequence of such calls.
\<close>

datatype 'b manager_op =
    Init models_config
  | GenerateFromAllModels "'b env" string options string
  | LoadAllModels "'b env" string
  | UnloadAllModels string
  | TrainModel models_config training_config string "json list" options string
  | HandleLoad "'b env" string
  | HandleGenerate "'b env" string string options
  | HandleUnload string

definition on_handle :: "'b manager \<Rightarrow> string \<Rightarrow> ('b handle \<Rightarrow> 'b handle) \<Rightarrow> 'b manager" where
  "on_handle mm modelName f =
     (case getModel mm modelName of
        Inr (Own h) \<Rightarrow> mm\<lparr>models := set_property (toLowerCase modelName) (f h) (models mm)\<rparr>
      | _ \<Rightarrow> mm)"

fun call :: "'b manager \<Rightarrow> 'b manager_op \<Rightarrow> 'b manager" where
  "call mm (Init cfg) = snd (init cfg mm)"
| "call mm (GenerateFromAllModels env prompt options now) =
     snd (generateFromAllModels env mm prompt options now)"
| "call mm (LoadAllModels env now) = snd (loadAllModels env mm now)"
| "call mm (UnloadAllModels now) = snd (unloadAllModels mm now)"
| "call mm (TrainModel cfg tcfg modelType trainingData options now) =
     snd (trainModel cfg tcfg mm modelType trainingData options now)"
| "call mm (HandleLoad env modelName) = on_handle mm modelName (\<lambda>h. snd (load env h))"
| "call mm (HandleGenerate env modelName prompt options) =
     on_handle mm modelName (\<lambda>h. snd (generate env h prompt options))"
| "call mm (HandleUnload modelName) = on_handle mm modelName (\<lambda>h. snd (unload h))"

definition calls :: "'b manager_op list \<Rightarrow> 'b manager" where
  "calls ops = foldl call new_manager ops"

text \<open>An initialised manager holds at least one model.\<close>

definition populated :: "'b manager \<Rightarrow> bool" where
  "populated mm = (initialized mm \<longrightarrow> models mm \<noteq> [])"


section \<open>Example inputs\<close>

text \<open>
  Concrete inputs at which the theorems below are evaluated. In \<open>env_ok\<close> every
  path exists, the data directory holds two JSON files and a text file, the
  Mistral and LLaMA runtimes work, and the ONNX session of GPT-J cannot be
  created. \<open>env_new\<close> is \<open>env_ok\<close> with a pipeline constructor that returns
  another instance, in \<open>env_fail\<close> the pipeline constructor throws, and in
  \<open>env_onnx\<close> and \<open>env_onnx_new\<close> the ONNX session is created (two different
  instances). In \<open>env_missing\<close> no path exists and the data directory holds no
  JSON file.
\<close>

definition example_a :: json where
  "example_a = JObject [(''input'', JStr ''Apa ibu kota Indonesia?''), (''output'', JStr ''Jakarta'')]"

definition example_b :: json where
  "example_b = JObject [(''prompt'', JStr ''1 + 1''), (''completion'', JStr ''2'')]"

definition example_c :: json where
  "example_c = JObject [(''input'', JStr ''halo''), (''output'', JStr ''hai''), (''metadata'', JObject [(''tag'', JStr ''sapa'')])]"

definition env_ok :: "nat env" where
  "env_ok =
     \<lparr>existsSync = (\<lambda>p. True),
      readdirSync = (\<lambda>d. Inr [''a.json'', ''notes.txt'', ''b.json'']),
      readFileSync = (\<lambda>p. if p = ''data/a.json'' then Inr ''A'' else if p = ''data/b.json'' then Inr ''B''
                           else Inl (Thrown ''EISDIR'')),
      mkdirSync = (\<lambda>p. None),
      writeFileSync = (\<lambda>p v. None),
      JSON_parse = (\<lambda>c. if c = ''A'' then Inr (JArray [example_a, example_b])
                         else if c = ''B'' then Inr (JArray [example_c])
                         else Inl (Thrown ''Unexpected token'')),
      path_join = (\<lambda>a b. a @ ''/'' @ b),
      path_dirname = (\<lambda>p. ''.''),
      pipeline = (\<lambda>p. Inr 1),
      call_pipeline = (\<lambda>b prompt opts. Inr (prompt @ '' jawaban'')),
      new_LLModel = (\<lambda>p. Inr 2),
      LLModel_load = (\<lambda>m. Inr m),
      LLModel_generate = (\<lambda>m prompt opts. Inr ''halo''),
      InferenceSession_create = (\<lambda>p. Inl (Thrown ''model.onnx tidak dapat dibuka'')),
      generateTokens = (\<lambda>ids opts. ids)\<rparr>"

definition env_missing :: "nat env" where
  "env_missing = env_ok\<lparr>existsSync := (\<lambda>p. False), readdirSync := (\<lambda>d. Inr [''notes.txt''])\<rparr>"

definition config_ex :: models_config where
  "config_ex =
     \<lparr>llama = \<lparr>path = ''./models/llama2'', contextSize = 2048, batchSize = 512, threads = 4\<rparr>,
      mistral = \<lparr>path = ''./models/mistral7b'', contextSize = 2048, batchSize = 512, threads = 4\<rparr>,
      gptj = \<lparr>path = ''./models/gptj'', contextSize = 2048, batchSize = 512, threads = 4\<rparr>\<rparr>"

definition mistral_ex :: "nat handle" where
  "mistral_ex = new_model MistralModel (mistral config_ex)"

definition env_new :: "nat env" where
  "env_new = env_ok\<lparr>pipeline := (\<lambda>p. Inr 7)\<rparr>"

definition env_fail :: "nat env" where
  "env_fail = env_ok\<lparr>pipeline := (\<lambda>p. Inl (Thrown ''pipeline gagal dibuat''))\<rparr>"

definition env_onnx :: "nat env" where
  "env_onnx = env_ok\<lparr>InferenceSession_create := (\<lambda>p. Inr 3)\<rparr>"

definition env_onnx_new :: "nat env" where
  "env_onnx_new = env_ok\<lparr>InferenceSession_create := (\<lambda>p. Inr 9)\<rparr>"

definition gptj_ex :: "nat handle" where
  "gptj_ex = new_model GptjModel (gptj config_ex)"


text \<open>\<open>manager_ex\<close> is the manager after \<open>init\<close>.\<close>

definition manager_ex :: "nat manager" where
  "manager_ex = snd (init config_ex new_manager)"

text \<open>
  \<open>training_ex\<close> is a training configuration whose data directory is
  \<open>data\<close>; in \<open>env_bad\<close> the directory holds one JSON file that cannot be read;
  \<open>trainer_ex\<close> is a trainer on which \<open>schedulePeriodicTraining('all', 100)\<close>
  has registered timer 0; \<open>contents_ex\<close> gives the arrays in the two files of
  \<open>env_ok\<close>.
\<close>

definition training_ex :: training_config where
  "training_ex =
     \<lparr>training_batchSize = 16, training_epochs = 3, learningRate = 5 / 100000,
      checkpointDir = ''checkpoints'', dataDir = ''data''\<rparr>"

definition env_bad :: "nat env" where
  "env_bad = env_ok\<lparr>readdirSync := (\<lambda>d. Inr [''c.json''])\<rparr>"

definition trainer_ex :: "nat trainer" where
  "trainer_ex =
     snd (schedulePeriodicTraining
            \<lparr>modelManager = new_manager, intervals = [], nextIntervalId = 0, running = True\<rparr>
            ''all'' 100 ''2024-01-01T00:00:00.000Z'')"

definition contents_ex :: "string \<Rightarrow> json list" where
  "contents_ex f = (if f = ''data/a.json'' then [example_a, example_b] else [example_c])"

text \<open>
  \<open>train\<close> as the specification words it, for comparison: a handle that is not
  loaded is loaded first, and training runs only if that succeeds.
\<close>

definition train_spec :: "'b env \<Rightarrow> 'b handle \<Rightarrow> json list \<Rightarrow> options \<Rightarrow> string \<Rightarrow> (error + train_result) \<times> 'b handle" where
  "train_spec env h trainingData options now =
     (if \<not> isLoaded h
      then (case load env h of
              (Inl e, h1) \<Rightarrow> (Inl e, h1)
            | (Inr ok, h1) \<Rightarrow> train h1 trainingData options now)
      else train h trainingData options now)"

section \<open>Properties of the rate limiter\<close>

lemma timestamps_upd_same: "timestamps (m(k \<mapsto> v)) k = v"
  by (simp add: timestamps_def)

lemma timestamps_upd_other: "k' \<noteq> k \<Longrightarrow> timestamps (m(k' \<mapsto> v)) k = timestamps m k"
  by (simp add: timestamps_def)

lemma timestamps_init: "timestamps (if m k = None then m(k \<mapsto> []) else m) k' = timestamps m k'"
  by (auto simp: timestamps_def split: option.splits)

lemma rateLimiter_decision:
  "fst (rateLimiter options requests ip now) =
     (length (filter (\<lambda>time. now - time < windowMs options) (timestamps requests ip)) < max_req options)"
  by (auto simp: rateLimiter_def Let_def timestamps_init)

lemma rateLimiter_reject_state:
  "\<not> fst (rateLimiter options requests ip now) \<Longrightarrow>
     timestamps (snd (rateLimiter options requests ip now)) k = timestamps requests k"
  by (auto simp: rateLimiter_def Let_def timestamps_init split: if_splits)

lemma rateLimiter_admit_state:
  "fst (rateLimiter options requests ip now) \<Longrightarrow>
     timestamps (snd (rateLimiter options requests ip now)) ip =
       filter (\<lambda>time. now - time < windowMs options) (timestamps requests ip) @ [now]"
  by (auto simp: rateLimiter_def Let_def timestamps_init timestamps_upd_same split: if_splits)

lemma rateLimiter_other_key:
  "k \<noteq> ip \<Longrightarrow> timestamps (snd (rateLimiter options requests ip now)) k = timestamps requests k"
  by (auto simp: rateLimiter_def Let_def timestamps_init timestamps_upd_other)

lemma rateLimiter_same_key:
  assumes "timestamps r ip = timestamps r' ip"
  shows "fst (rateLimiter options r ip now) = fst (rateLimiter options r' ip now)"
    and "timestamps (snd (rateLimiter options r ip now)) ip =
         timestamps (snd (rateLimiter options r' ip now)) ip"
  using assms
  by (auto simp: rateLimiter_def Let_def timestamps_init timestamps_upd_same)

lemma rateLimiter_bounded:
  assumes "length (timestamps requests k) \<le> max_req options"
  shows "length (timestamps (snd (rateLimiter options requests ip now)) k) \<le> max_req options"
proof (cases "k = ip")
  case False
  then show ?thesis using assms by (simp add: rateLimiter_other_key)
next
  case True
  show ?thesis
  proof (cases "fst (rateLimiter options requests ip now)")
    case False
    then show ?thesis using assms by (simp add: rateLimiter_reject_state)
  next
    case ok: True
    then have "length (filter (\<lambda>time. now - time < windowMs options) (timestamps requests ip))
                 < max_req options"
      by (simp add: rateLimiter_decision)
    then show ?thesis using True ok by (simp add: rateLimiter_admit_state)
  qed
qed

lemma serve_Cons:
  "serve options r ((ip, now) # rest) =
     (fst (rateLimiter options r ip now) #
        fst (serve options (snd (rateLimiter options r ip now)) rest),
      snd (serve options (snd (rateLimiter options r ip now)) rest))"
  by (simp split: prod.splits)

lemma serve_bounded:
  "length (timestamps requests k) \<le> max_req options \<Longrightarrow>
     length (timestamps (snd (serve options requests reqs)) k) \<le> max_req options"
proof (induction reqs arbitrary: requests)
  case Nil
  then show ?case by simp
next
  case (Cons r reqs)
  obtain ip now where r: "r = (ip, now)" by (cases r)
  have "length (timestamps (snd (rateLimiter options requests ip now)) k) \<le> max_req options"
    using Cons.prems by (rule rateLimiter_bounded)
  from Cons.IH [OF this] show ?case
    by (simp add: r serve_Cons del: serve.simps(2))
qed

lemma serve_window_count:
  "length (filter (\<lambda>t. now - windowMs options \<le> t \<and> t \<le> now)
       (timestamps (snd (serve options Map.empty reqs)) k)) \<le> max_req options"
proof -
  have "length (timestamps (snd (serve options Map.empty reqs)) k) \<le> max_req options"
    by (rule serve_bounded) (simp add: timestamps_def)
  moreover have "length (filter (\<lambda>t. now - windowMs options \<le> t \<and> t \<le> now)
       (timestamps (snd (serve options Map.empty reqs)) k))
     \<le> length (timestamps (snd (serve options Map.empty reqs)) k)"
    by (rule length_filter_le)
  ultimately show ?thesis by (rule order_trans [rotated])
qed

lemma back_to_back:
  assumes "t1 \<le> t2" "t2 \<le> t3" "t3 - t1 < 1000"
  shows "fst (serve \<lparr>windowMs = 1000, max_req = 2\<rparr> Map.empty [(k, t1), (k, t2), (k, t3)])
           = [True, True, False]"
  using assms
  by (simp add: serve_Cons rateLimiter_def timestamps_def Let_def del: serve.simps(2))

text \<open>
  C2, as the code has it. The middleware keeps the timestamps with
  \<open>now - time < windowMs\<close>, so it prunes every timestamp that is at least
  \<open>windowMs\<close> old (the one exactly \<open>windowMs\<close> old included). It rejects, and leaves
  the client's timestamps as they were, when at least \<open>max\<close> of them remain;
  otherwise it admits and stores the remaining ones followed by \<open>now\<close>. Three
  requests of one client within less than 1000 ms under \<open>{windowMs: 1000, max: 2}\<close>
  are decided admit, admit, reject. After any sequence of requests served from the
  empty \<open>Map\<close>, the last at time \<open>now\<close>, every client has at most \<open>max\<close>
  timestamps within \<open>[now - windowMs, now]\<close>.
\<close>

theorem rateLimiter_admit:
  "fst (rateLimiter options requests ip now) =
     (length (filter (\<lambda>time. now - time < windowMs options) (timestamps requests ip))
        < max_req options)
   \<and> (\<not> fst (rateLimiter options requests ip now) \<longrightarrow>
        timestamps (snd (rateLimiter options requests ip now)) ip = timestamps requests ip)
   \<and> (fst (rateLimiter options requests ip now) \<longrightarrow>
        timestamps (snd (rateLimiter options requests ip now)) ip =
          filter (\<lambda>time. now - time < windowMs options) (timestamps requests ip) @ [now])
   \<and> (t1 \<le> t2 \<and> t2 \<le> t3 \<and> t3 - t1 < 1000 \<longrightarrow>
        fst (serve \<lparr>windowMs = 1000, max_req = 2\<rparr> Map.empty [(ip, t1), (ip, t2), (ip, t3)])
          = [True, True, False])
   \<and> length (filter (\<lambda>t. now - windowMs options \<le> t \<and> t \<le> now)
         (timestamps (snd (serve options Map.empty (reqs @ [(ip, now)]))) k)) \<le> max_req options"
  using rateLimiter_decision [of options requests ip now]
    rateLimiter_reject_state [of options requests ip now ip]
    rateLimiter_admit_state [of options requests ip now]
    back_to_back [of t1 t2 t3 ip]
    serve_window_count [of now options "reqs @ [(ip, now)]" k]
  by blast

theorem rateLimiter_admit_witness:
  "fst (rateLimiter \<lparr>windowMs = 1000, max_req = 2\<rparr> [''clientA'' \<mapsto> [0, 1]] ''clientA'' 2) = False
   \<and> timestamps (snd (rateLimiter \<lparr>windowMs = 1000, max_req = 2\<rparr> [''clientA'' \<mapsto> [0, 1]]
        ''clientA'' 2)) ''clientA'' = [0, 1]
   \<and> fst (rateLimiter \<lparr>windowMs = 1000, max_req = 2\<rparr> [''clientA'' \<mapsto> [0, 1]] ''clientA'' 1000)
       = True
   \<and> timestamps (snd (rateLimiter \<lparr>windowMs = 1000, max_req = 2\<rparr> [''clientA'' \<mapsto> [0, 1]]
        ''clientA'' 1000)) ''clientA'' = [1, 1000]
   \<and> fst (serve \<lparr>windowMs = 1000, max_req = 2\<rparr> Map.empty
        [(''clientA'', 5), (''clientA'', 5), (''clientA'', 6)]) = [True, True, False]"
  using rateLimiter_admit [of "\<lparr>windowMs = 1000, max_req = 2\<rparr>" "[''clientA'' \<mapsto> [0, 1]]"
      "''clientA''" 2 5 5 6 "[]" "''clientA''"]
    rateLimiter_admit [of "\<lparr>windowMs = 1000, max_req = 2\<rparr>" "[''clientA'' \<mapsto> [0, 1]]"
      "''clientA''" 1000 5 5 6 "[]" "''clientA''"]
  by (simp add: timestamps_def)

text \<open>
  C2 as the specification words it fails at the edge of the window. Under
  \<open>{windowMs: 1000, max: 1}\<close> a client asks at time 0 and again at time 1000. The
  code drops the first timestamp (\<open>1000 - 0 < 1000\<close> is false) and admits both; the
  rule "prune what is older than \<open>now - windowMs\<close>" keeps it (0 is not older than
  0), counts one timestamp and rejects the second request.
\<close>

theorem rateLimiter_boundary_counterexample:
  "fst (serve \<lparr>windowMs = 1000, max_req = 1\<rparr> Map.empty [(''clientA'', 0), (''clientA'', 1000)])
     = [True, True]
   \<and> fst (admit_spec \<lparr>windowMs = 1000, max_req = 1\<rparr>
        (snd (serve \<lparr>windowMs = 1000, max_req = 1\<rparr> Map.empty [(''clientA'', 0)]))
        ''clientA'' 1000) = False"
  by (simp add: serve_Cons rateLimiter_def admit_spec_def timestamps_def Let_def
      del: serve.simps(2))

lemma serve_same_key:
  "timestamps r k = timestamps r' k \<Longrightarrow> k \<noteq> k2 \<Longrightarrow>
     decisions_for k options r reqs =
     decisions_for k options r' (filter (\<lambda>p. fst p \<noteq> k2) reqs)"
proof (induction reqs arbitrary: r r')
  case Nil
  then show ?case by (simp add: decisions_for_def)
next
  case (Cons q reqs)
  obtain ip now where q: "q = (ip, now)" by (cases q)
  show ?case
  proof (cases "ip = k")
    case True
    have a: "fst (rateLimiter options r ip now) = fst (rateLimiter options r' ip now)"
      and b: "timestamps (snd (rateLimiter options r ip now)) k =
         timestamps (snd (rateLimiter options r' ip now)) k"
      using rateLimiter_same_key [of r ip r'] Cons.prems True by auto
    from Cons.IH [OF b Cons.prems(2)] a True Cons.prems(2) show ?thesis
      by (simp add: q decisions_for_def serve_Cons del: serve.simps(2))
  next
    case False
    have b: "timestamps (snd (rateLimiter options r ip now)) k = timestamps r k"
      using False by (simp add: rateLimiter_other_key)
    show ?thesis
    proof (cases "ip = k2")
      case True
      from Cons.IH [of "snd (rateLimiter options r ip now)" r'] b Cons.prems False True
      show ?thesis
        by (simp add: q decisions_for_def serve_Cons del: serve.simps(2))
    next
      case nk2: False
      have c: "timestamps (snd (rateLimiter options r' ip now)) k = timestamps r' k"
        using False by (simp add: rateLimiter_other_key)
      from Cons.IH [of "snd (rateLimiter options r ip now)" "snd (rateLimiter options r' ip now)"]
        b c Cons.prems False nk2
      show ?thesis
        by (simp add: q decisions_for_def serve_Cons del: serve.simps(2))
    qed
  qed
qed

text \<open>
  C10. The decisions taken for one client are those it would get if the requests of
  any other client were removed from the sequence: a client's requests never use up
  another client's quota.
\<close>

theorem rateLimiter_noninterference:
  "k1 \<noteq> k2 \<Longrightarrow>
     decisions_for k1 options requests reqs =
     decisions_for k1 options requests (filter (\<lambda>p. fst p \<noteq> k2) reqs)"
  by (rule serve_same_key) simp_all

theorem rateLimiter_noninterference_witness:
  "decisions_for ''a'' \<lparr>windowMs = 1000, max_req = 1\<rparr> Map.empty
      [(''a'', 0), (''b'', 0), (''a'', 1), (''b'', 1)] = [True, False] \<and>
   decisions_for ''a'' \<lparr>windowMs = 1000, max_req = 1\<rparr> Map.empty
      [(''a'', 0), (''a'', 1)] = [True, False]"
  using rateLimiter_noninterference [of "''a''" "''b''" "\<lparr>windowMs = 1000, max_req = 1\<rparr>"
      Map.empty "[(''a'', 0), (''b'', 0), (''a'', 1), (''b'', 1)]"]
  by (simp add: decisions_for_def rateLimiter_def timestamps_def)

section \<open>Properties of the model handles\<close>

lemma load_result:
  "isLoaded (snd (load env h)) = (fst (load env h) = Inr True)"
  by (simp add: load_def split: kind.splits sum.splits)

lemma load_ignores_state:
  "load env (h\<lparr>isLoaded := b\<rparr>) = load env h"
  by (simp add: load_def split: kind.splits sum.splits)

lemma load_Inr:
  "load env h = (Inr ok, h1) \<Longrightarrow> ok \<and> isLoaded h1"
  by (auto simp: load_def split: kind.splits sum.splits if_splits)

lemma generate_success_loaded:
  "fst (generate env h prompt options) = Inr text \<Longrightarrow> isLoaded (snd (generate env h prompt options))"
  by (auto simp: generate_def split: if_splits prod.splits sum.splits dest: load_Inr)

lemma generate_unloaded:
  "\<not> isLoaded h \<Longrightarrow>
     generate env h prompt options =
       (case load env h of
          (Inl e, h1) \<Rightarrow> (Inl e, h1)
        | (Inr ok, h1) \<Rightarrow> generate env h1 prompt options)"
  by (auto simp: generate_def split: prod.splits sum.splits dest: load_Inr)

lemma load_missing_path:
  "\<not> existsSync env (modelPath h) \<Longrightarrow>
     load env h = (Inl (PathNotFound (modelPath h)), h\<lparr>isLoaded := False\<rparr>)"
  by (simp add: load_def)

lemma load_backend_new:
  "fst (load env h) = Inr True \<Longrightarrow>
     backend (snd (load env h)) = backend (snd (load env (h\<lparr>backend := None\<rparr>)))"
  by (auto simp add: load_def split: kind.splits sum.splits if_splits)

lemma load_Mistral:
  "kind h = MistralModel \<Longrightarrow> existsSync env (modelPath h) \<Longrightarrow> pipeline env (modelPath h) = Inr p \<Longrightarrow>
     load env h = (Inr True, h\<lparr>backend := Some p, isLoaded := True\<rparr>)"
  by (simp add: load_def)

lemma load_Llama:
  "kind h = LlamaModel \<Longrightarrow> existsSync env (modelPath h) \<Longrightarrow> new_LLModel env (modelPath h) = Inr m \<Longrightarrow>
     LLModel_load env m = Inr m' \<Longrightarrow>
     load env h = (Inr True, h\<lparr>backend := Some m', isLoaded := True\<rparr>)"
  by (simp add: load_def)

text \<open>
  C9. \<open>unload\<close> on a handle that is not loaded returns \<open>true\<close>, raises nothing
  and leaves the handle as it is.
\<close>

theorem unload_unloaded:
  "\<not> isLoaded h \<Longrightarrow> unload h = (Inr True, h)"
  by (simp add: unload_def)

theorem unload_unloaded_witness:
  "\<not> isLoaded mistral_ex \<and> unload mistral_ex = (Inr True, mistral_ex)"
  using unload_unloaded [of mistral_ex]
  by (simp add: mistral_ex_def new_model_def)

lemma load_total:
  "fst (load env h) = Inr True \<or> (\<exists>e. fst (load env h) = Inl e)"
  by (simp add: load_def split: kind.splits sum.splits)

lemma load_Mistral_fails:
  "kind h = MistralModel \<Longrightarrow> existsSync env (modelPath h) \<Longrightarrow> pipeline env (modelPath h) = Inl e \<Longrightarrow>
     load env h = (Inl e, h\<lparr>isLoaded := False\<rparr>)"
  by (simp add: load_def)

lemma load_Llama_new_fails:
  "kind h = LlamaModel \<Longrightarrow> existsSync env (modelPath h) \<Longrightarrow> new_LLModel env (modelPath h) = Inl e \<Longrightarrow>
     load env h = (Inl e, h\<lparr>isLoaded := False\<rparr>)"
  by (simp add: load_def)

lemma load_Llama_load_fails:
  "kind h = LlamaModel \<Longrightarrow> existsSync env (modelPath h) \<Longrightarrow> new_LLModel env (modelPath h) = Inr m \<Longrightarrow>
     LLModel_load env m = Inl e \<Longrightarrow>
     load env h = (Inl e, h\<lparr>backend := Some m, isLoaded := False\<rparr>)"
  by (simp add: load_def)

lemma load_Gptj:
  "kind h = GptjModel \<Longrightarrow> existsSync env (modelPath h) \<Longrightarrow>
     InferenceSession_create env (path_join env (modelPath h) ''model.onnx'') = Inr s \<Longrightarrow>
     load env h = (Inr True, h\<lparr>backend := Some s, tokenizer := True, isLoaded := True\<rparr>)"
  by (simp add: load_def)

lemma load_Gptj_fails:
  "kind h = GptjModel \<Longrightarrow> existsSync env (modelPath h) \<Longrightarrow>
     InferenceSession_create env (path_join env (modelPath h) ''model.onnx'') = Inl e \<Longrightarrow>
     load env h = (Inl e, h\<lparr>isLoaded := False\<rparr>)"
  by (simp add: load_def)

text \<open>
  C4, as the code has it. \<open>load\<close> never looks at \<open>isLoaded\<close>: on a loaded handle
  it runs the whole load again, exactly as on a handle that is not loaded. It
  returns \<open>true\<close> or throws, and the handle is loaded afterwards exactly when it
  returned \<open>true\<close>. If the model path no longer exists the call throws and the
  handle is no longer loaded. If the runtime fails to create or load its instance
  the call throws that error and the handle is no longer loaded. On success the
  owned instance is the one the runtime has just created, whatever the handle
  owned before. The last eight parts spell this out for each of the three classes.
\<close>

theorem load_on_loaded_handle:
  "isLoaded h \<Longrightarrow>
     load env h = load env (h\<lparr>isLoaded := False\<rparr>)
     \<and> isLoaded (snd (load env h)) = (fst (load env h) = Inr True)
     \<and> (fst (load env h) = Inr True \<or> (\<exists>e. fst (load env h) = Inl e))
     \<and> (\<not> existsSync env (modelPath h) \<longrightarrow>
          load env h = (Inl (PathNotFound (modelPath h)), h\<lparr>isLoaded := False\<rparr>))
     \<and> (fst (load env h) = Inr True \<longrightarrow>
          backend (snd (load env h)) = backend (snd (load env (h\<lparr>backend := None\<rparr>))))
     \<and> (kind h = MistralModel \<and> existsSync env (modelPath h) \<and> pipeline env (modelPath h) = Inr p \<longrightarrow>
          load env h = (Inr True, h\<lparr>backend := Some p, isLoaded := True\<rparr>))
     \<and> (kind h = MistralModel \<and> existsSync env (modelPath h) \<and> pipeline env (modelPath h) = Inl e \<longrightarrow>
          load env h = (Inl e, h\<lparr>isLoaded := False\<rparr>))
     \<and> (kind h = LlamaModel \<and> existsSync env (modelPath h) \<and> new_LLModel env (modelPath h) = Inr m
          \<and> LLModel_load env m = Inr m' \<longrightarrow>
          load env h = (Inr True, h\<lparr>backend := Some m', isLoaded := True\<rparr>))
     \<and> (kind h = LlamaModel \<and> existsSync env (modelPath h) \<and> new_LLModel env (modelPath h) = Inl e \<longrightarrow>
          load env h = (Inl e, h\<lparr>isLoaded := False\<rparr>))
     \<and> (kind h = LlamaModel \<and> existsSync env (modelPath h) \<and> new_LLModel env (modelPath h) = Inr m
          \<and> LLModel_load env m = Inl e \<longrightarrow>
          load env h = (Inl e, h\<lparr>backend := Some m, isLoaded := False\<rparr>))
     \<and> (kind h = GptjModel \<and> existsSync env (modelPath h)
          \<and> InferenceSession_create env (path_join env (modelPath h) ''model.onnx'') = Inr s \<longrightarrow>
          load env h = (Inr True, h\<lparr>backend := Some s, tokenizer := True, isLoaded := True\<rparr>))
     \<and> (kind h = GptjModel \<and> existsSync env (modelPath h)
          \<and> InferenceSession_create env (path_join env (modelPath h) ''model.onnx'') = Inl e \<longrightarrow>
          load env h = (Inl e, h\<lparr>isLoaded := False\<rparr>))"
  using load_ignores_state [where env = env and h = h and b = False] load_result [of env h]
    load_total [of env h] load_missing_path [of env h]
    load_backend_new [of env h] load_Mistral [of h env p] load_Llama [of h env m m']
    load_Mistral_fails [of h env e] load_Llama_new_fails [of h env e] load_Llama_load_fails [of h env m e]
    load_Gptj [of h env s] load_Gptj_fails [of h env e]
  by simp

theorem load_on_loaded_handle_witness:
  "isLoaded (snd (load env_ok mistral_ex))
   \<and> load env_ok (snd (load env_ok mistral_ex)) = (Inr True, snd (load env_ok mistral_ex))
   \<and> load env_new (snd (load env_ok mistral_ex)) =
       (Inr True, (snd (load env_ok mistral_ex))\<lparr>backend := Some 7\<rparr>)
   \<and> fst (load env_missing (snd (load env_ok mistral_ex))) = Inl (PathNotFound ''./models/mistral7b'')
   \<and> load env_fail (snd (load env_ok mistral_ex)) =
       (Inl (Thrown ''pipeline gagal dibuat''), (snd (load env_ok mistral_ex))\<lparr>isLoaded := False\<rparr>)
   \<and> isLoaded (snd (load env_onnx gptj_ex))
   \<and> backend (snd (load env_onnx gptj_ex)) = Some 3
   \<and> load env_onnx_new (snd (load env_onnx gptj_ex)) =
       (Inr True, (snd (load env_onnx gptj_ex))\<lparr>backend := Some 9\<rparr>)
   \<and> load env_ok (snd (load env_onnx gptj_ex)) =
       (Inl (Thrown ''model.onnx tidak dapat dibuka''), (snd (load env_onnx gptj_ex))\<lparr>isLoaded := False\<rparr>)"
  using load_on_loaded_handle [of "snd (load env_ok mistral_ex)" env_ok 1 "Thrown ''x''" 2 2 3]
    load_on_loaded_handle [of "snd (load env_ok mistral_ex)" env_new 7 "Thrown ''x''" 2 2 3]
    load_on_loaded_handle [of "snd (load env_ok mistral_ex)" env_missing 1 "Thrown ''x''" 2 2 3]
    load_on_loaded_handle [of "snd (load env_ok mistral_ex)" env_fail 1
      "Thrown ''pipeline gagal dibuat''" 2 2 3]
    load_on_loaded_handle [of "snd (load env_onnx gptj_ex)" env_onnx_new 1 "Thrown ''x''" 2 2 9]
    load_on_loaded_handle [of "snd (load env_onnx gptj_ex)" env_ok 1
      "Thrown ''model.onnx tidak dapat dibuka''" 2 2 3]
  by (simp add: load_def env_ok_def env_new_def env_missing_def env_fail_def env_onnx_def
      env_onnx_new_def mistral_ex_def gptj_ex_def new_model_def config_ex_def)

text \<open>
  C4 as the specification words it fails. A Mistral handle is loaded while its
  path exists; \<open>load\<close> is called again after the path has gone: the call throws
  and the handle is left not loaded. Where the second call succeeds, the handle
  owns the new pipeline (7), not the one it had (1).
\<close>

theorem load_on_loaded_counterexample:
  "isLoaded (snd (load env_ok mistral_ex))
   \<and> fst (load env_missing (snd (load env_ok mistral_ex))) = Inl (PathNotFound ''./models/mistral7b'')
   \<and> isLoaded (snd (load env_missing (snd (load env_ok mistral_ex)))) = False
   \<and> backend (snd (load env_ok mistral_ex)) = Some 1
   \<and> backend (snd (load env_new (snd (load env_ok mistral_ex)))) = Some 7"
  by (simp add: load_def env_ok_def env_new_def env_missing_def mistral_ex_def new_model_def config_ex_def)

lemma save_ignores_state:
  "save env (h\<lparr>isLoaded := b\<rparr>) savePath now = (fst (save env h savePath now), h\<lparr>isLoaded := b\<rparr>)"
  by (simp add: save_def modelInfo_def Let_def split: option.splits)

lemma save_handle: "snd (save env h savePath now) = h"
  by (simp add: save_def Let_def split: option.splits)

text \<open>
  C3, as the code has it. \<open>generate\<close> on a handle that is not loaded calls
  \<open>load\<close> first and generates only if the load succeeds, so a text is only ever
  returned by a loaded handle. \<open>train\<close> and \<open>evaluate\<close> never look at the load
  state: they succeed and leave the handle as it is. \<open>save\<close> does not look at
  the load state either: its result is the same whether the handle is loaded or not,
  it leaves the handle as it is, and it returns \<open>true\<close> whenever the directory
  and the metadata file can be written. None of the three calls \<open>load\<close>.
\<close>

theorem capabilities_and_load:
  "(\<not> isLoaded h \<longrightarrow>
      generate env h prompt options =
        (case load env h of
           (Inl e, h1) \<Rightarrow> (Inl e, h1)
         | (Inr ok, h1) \<Rightarrow> generate env h1 prompt options))
   \<and> (fst (generate env h prompt options) = Inr text \<longrightarrow>
        isLoaded (snd (generate env h prompt options)))
   \<and> snd (train h trainingData options now) = h
   \<and> (\<exists>r. fst (train h trainingData options now) = Inr r)
   \<and> snd (evaluate h evalData now) = h
   \<and> (\<exists>m. fst (evaluate h evalData now) = Inr m)
   \<and> snd (save env h savePath now) = h
   \<and> save env (h\<lparr>isLoaded := b\<rparr>) savePath now =
       (fst (save env h savePath now), h\<lparr>isLoaded := b\<rparr>)
   \<and> (mkdirSync env (path_dirname env
          (case savePath of
             None \<Rightarrow> path_join env (modelPath h) ''checkpoint''
           | Some p \<Rightarrow> if p = [] then path_join env (modelPath h) ''checkpoint'' else p)) = None
       \<and> writeFileSync env
          ((case savePath of
              None \<Rightarrow> path_join env (modelPath h) ''checkpoint''
            | Some p \<Rightarrow> if p = [] then path_join env (modelPath h) ''checkpoint'' else p) @ ''.meta.json'')
          (modelInfo h now) = None
       \<longrightarrow> save env h savePath now = (Inr True, h))"
proof -
  have "mkdirSync env (path_dirname env
          (case savePath of
             None \<Rightarrow> path_join env (modelPath h) ''checkpoint''
           | Some p \<Rightarrow> if p = [] then path_join env (modelPath h) ''checkpoint'' else p)) = None
       \<and> writeFileSync env
          ((case savePath of
              None \<Rightarrow> path_join env (modelPath h) ''checkpoint''
            | Some p \<Rightarrow> if p = [] then path_join env (modelPath h) ''checkpoint'' else p) @ ''.meta.json'')
          (modelInfo h now) = None
       \<longrightarrow> save env h savePath now = (Inr True, h)"
    by (simp add: save_def Let_def)
  then show ?thesis
    using generate_unloaded [of h env prompt options]
      generate_success_loaded [where env = env and h = h and prompt = prompt and options = options]
      save_handle [of env h savePath now] save_ignores_state [where env = env and h = h and b = b and savePath = savePath and now = now]
    by (simp add: train_def evaluate_def)
qed

theorem capabilities_and_load_witness:
  "\<not> isLoaded mistral_ex
   \<and> generate env_ok mistral_ex ''Halo'' Map.empty = (Inr '' jawaban'', snd (load env_ok mistral_ex))
   \<and> isLoaded (snd (generate env_ok mistral_ex ''Halo'' Map.empty))
   \<and> generate env_missing mistral_ex ''Halo'' Map.empty =
       (Inl (PathNotFound ''./models/mistral7b''), mistral_ex)
   \<and> save env_ok mistral_ex None ''2024-01-01T00:00:00.000Z'' = (Inr True, mistral_ex)
   \<and> save env_ok mistral_ex (Some ''checkpoints/mistral'') ''2024-01-01T00:00:00.000Z'' =
       (Inr True, mistral_ex)"
proof -
  have e: "mkdirSync env_ok p = None" "writeFileSync env_ok p v = None" for p v
    by (simp_all add: env_ok_def)
  show ?thesis
    using capabilities_and_load [of mistral_ex env_ok "''Halo''" Map.empty "'' jawaban''" "[]"
        "''2024-01-01T00:00:00.000Z''" "[]" None False]
      capabilities_and_load [of mistral_ex env_missing "''Halo''" Map.empty "'' jawaban''" "[]"
        "''2024-01-01T00:00:00.000Z''" "[]" None False]
      capabilities_and_load [of mistral_ex env_ok "''Halo''" Map.empty "'' jawaban''" "[]"
        "''2024-01-01T00:00:00.000Z''" "[]" "Some ''checkpoints/mistral''" False] e
    by (simp add: load_def generate_def generate_loaded_def env_ok_def env_missing_def mistral_ex_def
        new_model_def config_ex_def)
qed


text \<open>
  C3 as the specification words it fails for \<open>train\<close>. A Mistral handle that was
  never loaded trains successfully and is still not loaded afterwards; had the call
  loaded the handle first, it would have thrown where the model path is missing and
  left the handle loaded where the path exists.
\<close>

theorem train_unloaded_counterexample:
  "isLoaded mistral_ex = False
   \<and> fst (train mistral_ex [example_a] Map.empty ''2024-01-01T00:00:00.000Z'') =
       Inr \<lparr>status = ''success'', epochs = JNum 1, loss = 6 / 100, accuracy = 94 / 100,
            timestamp = ''2024-01-01T00:00:00.000Z''\<rparr>
   \<and> isLoaded (snd (train mistral_ex [example_a] Map.empty ''2024-01-01T00:00:00.000Z'')) = False
   \<and> fst (train_spec env_missing mistral_ex [example_a] Map.empty ''2024-01-01T00:00:00.000Z'') =
       Inl (PathNotFound ''./models/mistral7b'')
   \<and> isLoaded (snd (train_spec env_ok mistral_ex [example_a] Map.empty ''2024-01-01T00:00:00.000Z''))"
  by (simp add: train_def train_spec_def load_def or_else_def env_ok_def env_missing_def mistral_ex_def
      new_model_def config_ex_def)

section \<open>Properties of the model manager\<close>

lemma generate_each_Cons:
  "generate_each env prompt options ((name, model) # rest) acc =
     ((name, snd (generate env model prompt options)) #
        fst (generate_each env prompt options rest
          (acc(name \<mapsto> (case fst (generate env model prompt options) of
                          Inr text \<Rightarrow> text | Inl e \<Rightarrow> ''ERROR: '' @ message e)))),
      snd (generate_each env prompt options rest
          (acc(name \<mapsto> (case fst (generate env model prompt options) of
                          Inr text \<Rightarrow> text | Inl e \<Rightarrow> ''ERROR: '' @ message e)))))"
  by (simp split: prod.splits sum.splits)

lemma generate_each_names:
  "map fst (fst (generate_each env prompt options ms acc)) = map fst ms"
proof (induction ms arbitrary: acc)
  case Nil
  then show ?case by simp
next
  case (Cons a ms)
  obtain name model where a: "a = (name, model)" by (cases a)
  show ?case using Cons.IH by (simp add: a generate_each_Cons del: generate_each.simps(2))
qed

lemma generate_each_dom:
  "dom (snd (generate_each env prompt options ms acc)) = dom acc \<union> fst ` set ms"
proof (induction ms arbitrary: acc)
  case Nil
  then show ?case by simp
next
  case (Cons a ms)
  obtain name model where a: "a = (name, model)" by (cases a)
  show ?case using Cons.IH by (auto simp add: a generate_each_Cons simp del: generate_each.simps(2))
qed

lemma generate_each_other:
  "name \<notin> fst ` set ms \<Longrightarrow> snd (generate_each env prompt options ms acc) name = acc name"
proof (induction ms arbitrary: acc)
  case Nil
  then show ?case by simp
next
  case (Cons a ms)
  obtain n model where a: "a = (n, model)" by (cases a)
  show ?case using Cons.IH Cons.prems by (auto simp add: a generate_each_Cons simp del: generate_each.simps(2))
qed

lemma generate_each_entry:
  "distinct (map fst ms) \<Longrightarrow> (name, model) \<in> set ms \<Longrightarrow>
     snd (generate_each env prompt options ms acc) name =
       Some (case fst (generate env model prompt options) of
               Inr text \<Rightarrow> text | Inl e \<Rightarrow> ''ERROR: '' @ message e)"
proof (induction ms arbitrary: acc)
  case Nil
  then show ?case by simp
next
  case (Cons a ms)
  obtain n m where a: "a = (n, m)" by (cases a)
  show ?case
  proof (cases "(name, model) = (n, m)")
    case True
    then have "name \<notin> fst ` set ms" using Cons.prems(1) by (auto simp: a)
    then show ?thesis using True
      by (simp add: a generate_each_Cons generate_each_other del: generate_each.simps(2))
  next
    case False
    then have "(name, model) \<in> set ms" using Cons.prems(2) by (auto simp: a)
    moreover have "distinct (map fst ms)" using Cons.prems(1) by simp
    ultimately show ?thesis using Cons.IH
      by (simp add: a generate_each_Cons del: generate_each.simps(2))
  qed
qed

lemma generateFromAllModels_initialized:
  "initialized mm \<Longrightarrow>
     generateFromAllModels env mm prompt options now =
       (Inr \<lparr>gen_prompt = prompt,
             gen_results = snd (generate_each env prompt options (models mm) Map.empty),
             gen_timestamp = now\<rparr>,
        mm\<lparr>models := fst (generate_each env prompt options (models mm) Map.empty)\<rparr>)"
  by (simp add: generateFromAllModels_def split: prod.splits)

text \<open>
  C1. On an initialised manager (whose object holds each name once)
  \<open>generateFromAllModels\<close> returns: it never throws because a model's
  \<open>generate\<close> threw. The result has exactly one entry per registered name; the
  entry is the text that model generated, or \<open>ERROR: \<close> with the message of the
  error that model threw. The result carries the prompt and the timestamp, and the
  manager still holds the same names.
\<close>

theorem generateFromAllModels_results:
  assumes "initialized mm" and "distinct (map fst (models mm))"
  shows "\<exists>res mm1.
           generateFromAllModels env mm prompt options now = (Inr res, mm1)
           \<and> dom (gen_results res) = fst ` set (models mm)
           \<and> (\<forall>(name, model) \<in> set (models mm).
                gen_results res name =
                  Some (case fst (generate env model prompt options) of
                          Inr text \<Rightarrow> text | Inl e \<Rightarrow> ''ERROR: '' @ message e))
           \<and> gen_prompt res = prompt \<and> gen_timestamp res = now
           \<and> map fst (models mm1) = map fst (models mm) \<and> initialized mm1"
proof (intro exI conjI)
  show "generateFromAllModels env mm prompt options now =
       (Inr \<lparr>gen_prompt = prompt,
             gen_results = snd (generate_each env prompt options (models mm) Map.empty),
             gen_timestamp = now\<rparr>,
        mm\<lparr>models := fst (generate_each env prompt options (models mm) Map.empty)\<rparr>)"
    using assms(1) by (rule generateFromAllModels_initialized)
  show "\<forall>(name, model) \<in> set (models mm).
          gen_results \<lparr>gen_prompt = prompt,
             gen_results = snd (generate_each env prompt options (models mm) Map.empty),
             gen_timestamp = now\<rparr> name =
            Some (case fst (generate env model prompt options) of
                    Inr text \<Rightarrow> text | Inl e \<Rightarrow> ''ERROR: '' @ message e)"
    using assms(2) by (auto simp: generate_each_entry)
qed (simp_all add: generate_each_dom generate_each_names assms(1))

theorem generateFromAllModels_results_witness:
  "initialized manager_ex \<and> distinct (map fst (models manager_ex))
   \<and> map fst (models manager_ex) = [''llama'', ''mistral'', ''gptj'']
   \<and> (\<exists>res mm1.
         generateFromAllModels env_ok manager_ex ''Halo'' Map.empty ''2024-01-01T00:00:00.000Z'' = (Inr res, mm1)
         \<and> dom (gen_results res) = {''llama'', ''mistral'', ''gptj''}
         \<and> gen_results res ''llama'' = Some ''halo''
         \<and> gen_results res ''mistral'' = Some '' jawaban''
         \<and> gen_results res ''gptj'' = Some ''ERROR: model.onnx tidak dapat dibuka''
         \<and> gen_timestamp res = ''2024-01-01T00:00:00.000Z'')"
proof -
  have m: "models manager_ex =
      [(''llama'', new_model LlamaModel (llama config_ex)),
       (''mistral'', new_model MistralModel (mistral config_ex)),
       (''gptj'', new_model GptjModel (gptj config_ex))]"
    and i: "initialized manager_ex"
    by (simp_all add: manager_ex_def init_def new_manager_def)
  have d: "distinct (map fst (models manager_ex))" by (simp add: m)
  have g1: "fst (generate env_ok (new_model LlamaModel (llama config_ex)) ''Halo'' Map.empty) = Inr ''halo''"
    by (simp add: generate_def generate_loaded_def load_def env_ok_def new_model_def config_ex_def)
  have g2: "fst (generate env_ok (new_model MistralModel (mistral config_ex)) ''Halo'' Map.empty) = Inr '' jawaban''"
    by (simp add: generate_def generate_loaded_def load_def env_ok_def new_model_def config_ex_def)
  have g3: "fst (generate env_ok (new_model GptjModel (gptj config_ex)) ''Halo'' Map.empty) =
      Inl (Thrown ''model.onnx tidak dapat dibuka'')"
    by (simp add: generate_def generate_loaded_def load_def env_ok_def new_model_def config_ex_def)
  from generateFromAllModels_results [OF i d, of env_ok "''Halo''" Map.empty "''2024-01-01T00:00:00.000Z''"]
  show ?thesis
    using i d by (auto simp: m g1 g2 g3)
qed

lemma set_property_nonempty: "set_property key v obj \<noteq> []"
  by (cases obj) (auto split: if_splits)

lemma set_property_names:
  "map_of obj key \<noteq> None \<Longrightarrow> map fst (set_property key v obj) = map fst obj"
  by (induction obj) (auto split: if_splits)

lemma load_each_names: "map fst (fst (load_each env ms acc)) = map fst ms"
proof (induction ms arbitrary: acc)
  case Nil
  then show ?case by simp
next
  case (Cons a ms)
  obtain name model where a: "a = (name, model)" by (cases a)
  show ?case
    by (auto simp: a split: prod.splits sum.splits) (metis Cons.IH fst_conv)+
qed

lemma unload_each_names: "map fst (fst (unload_each ms acc)) = map fst ms"
proof (induction ms arbitrary: acc)
  case Nil
  then show ?case by simp
next
  case (Cons a ms)
  obtain name model where a: "a = (name, model)" by (cases a)
  show ?case
    by (auto simp: a split: prod.splits sum.splits) (metis Cons.IH fst_conv)+
qed

lemma names_nonempty: "map fst ms' = map fst ms \<Longrightarrow> ms \<noteq> [] \<Longrightarrow> ms' \<noteq> []"
  by auto

lemma populated_init: "populated (snd (init cfg mm))"
  by (simp add: populated_def init_def set_property_nonempty)

lemma populated_generate:
  "populated mm \<Longrightarrow> populated (snd (generateFromAllModels env mm prompt options now))"
  using generate_each_names [of env prompt options "models mm" Map.empty]
  by (auto simp: populated_def generateFromAllModels_def split: prod.splits)

lemma populated_loadAll: "populated mm \<Longrightarrow> populated (snd (loadAllModels env mm now))"
  using load_each_names [of env "models mm" Map.empty]
  by (auto simp: populated_def loadAllModels_def split: prod.splits)

lemma populated_unloadAll: "populated mm \<Longrightarrow> populated (snd (unloadAllModels mm now))"
  using unload_each_names [of "models mm" Map.empty]
  by (auto simp: populated_def unloadAllModels_def split: prod.splits)

lemma trainModel_manager:
  "snd (trainModel cfg tcfg mm modelType trainingData options now) =
     (if \<not> initialized mm then snd (init cfg mm) else mm)"
  by (simp add: trainModel_def init_def Let_def split: sum.splits property.splits)

lemma populated_trainModel:
  "populated mm \<Longrightarrow> populated (snd (trainModel cfg tcfg mm modelType trainingData options now))"
  by (simp add: trainModel_manager populated_init)

lemma populated_on_handle: "populated mm \<Longrightarrow> populated (on_handle mm modelName f)"
  by (auto simp: populated_def on_handle_def set_property_nonempty split: sum.splits property.splits)

lemma populated_call: "populated mm \<Longrightarrow> populated (call mm op)"
  by (cases op)
    (simp_all add: populated_init populated_generate populated_loadAll populated_unloadAll
      populated_trainModel populated_on_handle)

lemma populated_foldl: "populated mm \<Longrightarrow> populated (foldl call mm ops)"
  by (induction ops arbitrary: mm) (simp_all add: populated_call)

lemma populated_calls: "populated (calls ops)"
  unfolding calls_def by (rule populated_foldl) (simp add: populated_def new_manager_def)

lemma generateFromAllModels_fails_iff:
  "(\<exists>e. fst (generateFromAllModels env mm prompt options now) = Inl e) = (\<not> initialized mm)"
  by (auto simp: generateFromAllModels_def split: prod.splits)

text \<open>
  C5. On every manager the process can have, \<open>generateFromAllModels\<close> throws
  exactly when the manager is not initialised or holds no model, and the error is
  then the not-initialised error; in every other case it returns a result with one
  entry per registered name, whatever the models' \<open>generate\<close> calls threw. The
  method itself checks \<open>initialized\<close> only: a manager without models is the one
  \<open>init\<close> has not been called on, since \<open>init\<close> registers three models and no
  call removes one.
\<close>

theorem generateFromAllModels_structural:
  "((\<exists>e. fst (generateFromAllModels env (calls ops) prompt options now) = Inl e)
      = (\<not> initialized (calls ops) \<or> models (calls ops) = []))
   \<and> (\<not> initialized (calls ops) \<or> models (calls ops) = [] \<longrightarrow>
        generateFromAllModels env (calls ops) prompt options now = (Inl NotInitialized, calls ops))
   \<and> (initialized (calls ops) \<and> models (calls ops) \<noteq> [] \<longrightarrow>
        (\<exists>res mm1. generateFromAllModels env (calls ops) prompt options now = (Inr res, mm1)
           \<and> dom (gen_results res) = fst ` set (models (calls ops))))"
proof -
  have p: "initialized (calls ops) \<longrightarrow> models (calls ops) \<noteq> []"
    using populated_calls [of ops] by (simp add: populated_def)
  have a: "(\<exists>e. fst (generateFromAllModels env (calls ops) prompt options now) = Inl e)
      = (\<not> initialized (calls ops) \<or> models (calls ops) = [])"
    using p by (auto simp: generateFromAllModels_fails_iff)
  have b: "\<not> initialized (calls ops) \<or> models (calls ops) = [] \<longrightarrow>
        generateFromAllModels env (calls ops) prompt options now = (Inl NotInitialized, calls ops)"
    using p by (auto simp: generateFromAllModels_def)
  have c: "initialized (calls ops) \<longrightarrow>
        (\<exists>res mm1. generateFromAllModels env (calls ops) prompt options now = (Inr res, mm1)
           \<and> dom (gen_results res) = fst ` set (models (calls ops)))"
    by (auto simp: generateFromAllModels_initialized generate_each_dom)
  show ?thesis using a b c by blast
qed

theorem generateFromAllModels_structural_witness:
  "calls [] = (new_manager :: nat manager)
   \<and> models (calls [] :: nat manager) = []
   \<and> generateFromAllModels env_ok (calls []) ''Halo'' Map.empty ''2024-01-01T00:00:00.000Z'' =
       (Inl NotInitialized, new_manager)
   \<and> calls [Init config_ex] = manager_ex
   \<and> initialized manager_ex
   \<and> (\<exists>res mm1. generateFromAllModels env_ok (calls [Init config_ex]) ''Halo'' Map.empty
         ''2024-01-01T00:00:00.000Z'' = (Inr res, mm1)
         \<and> dom (gen_results res) = {''llama'', ''mistral'', ''gptj''})"
proof -
  have e: "calls [] = (new_manager :: nat manager)" "calls [Init config_ex] = manager_ex"
    by (simp_all add: calls_def manager_ex_def)
  have m: "initialized manager_ex" "models manager_ex \<noteq> []"
    "fst ` set (models manager_ex) = {''llama'', ''mistral'', ''gptj''}"
    by (auto simp add: manager_ex_def init_def new_manager_def)
  show ?thesis
    using generateFromAllModels_structural [of env_ok "[]" "''Halo''" Map.empty "''2024-01-01T00:00:00.000Z''"]
      generateFromAllModels_structural [of env_ok "[Init config_ex]" "''Halo''" Map.empty
        "''2024-01-01T00:00:00.000Z''"] m
    by (simp add: e new_manager_def)
qed


text \<open>
  \<open>getModel\<close> lower-cases the name and reads that property of \<open>this.models\<close>.
  For a name whose lower-case form is not a property of \<open>Object.prototype\<close> this
  is the lookup among the registered models: not-initialised error first,
  not-found error when no model is registered under the lower-case name, the
  registered handle otherwise.
\<close>

lemma getModel_lookup:
  "toLowerCase modelName \<notin> set Object_prototype \<Longrightarrow>
     getModel mm modelName =
       (if \<not> initialized mm then Inl NotInitialized
        else (case map_of (models mm) (toLowerCase modelName) of
                None \<Rightarrow> Inl (ModelNotFound modelName)
              | Some model \<Rightarrow> Inr (Own model)))"
  by (simp add: getModel_def get_property_def split: option.splits)

text \<open>
  C6 does not hold for the names \<open>constructor\<close> and \<open>__proto__\<close> (in any
  letter case). No model is registered under them, yet \<open>this.models[...]\<close> finds
  the property inherited from \<open>Object.prototype\<close>, the check \<open>!model\<close> passes,
  and \<open>getModel\<close> returns that value instead of throwing the not-found error. An
  unknown name such as \<open>bert\<close> gets the not-found error, \<open>LLaMA\<close> resolves to
  the handle registered as \<open>llama\<close>, and before \<open>init\<close> every lookup gets the
  not-initialised error.
\<close>

theorem getModel_inherited_property:
  "initialized manager_ex
   \<and> map fst (models manager_ex) = [''llama'', ''mistral'', ''gptj'']
   \<and> getModel manager_ex ''constructor'' = Inr (Inherited ''constructor'')
   \<and> getModel manager_ex ''Constructor'' = Inr (Inherited ''constructor'')
   \<and> getModel manager_ex ''__proto__'' = Inr (Inherited ''__proto__'')
   \<and> getModel manager_ex ''bert'' = Inl (ModelNotFound ''bert'')
   \<and> getModel manager_ex ''LLaMA'' = Inr (Own (new_model LlamaModel (llama config_ex)))
   \<and> getModel (new_manager :: nat manager) ''llama'' = Inl NotInitialized"
  by (simp add: getModel_def get_property_def Object_prototype_def toLowerCase_def lower_char_def
      manager_ex_def init_def new_manager_def)

section \<open>Properties of the trainer\<close>

lemma loadTrainingData_array:
  "existsSync env f \<Longrightarrow> readFileSync env f = Inr c \<Longrightarrow> JSON_parse env c = Inr (JArray xs) \<Longrightarrow>
     loadTrainingData env f = Inr (JArray xs)"
  by (simp add: loadTrainingData_def)

lemma merge_loop_arrays:
  "\<forall>f\<in>set files. loadTrainingData env f = Inr (JArray (contents f)) \<Longrightarrow>
     merge_loop env files acc = Inr (acc @ concat (map contents files))"
  by (induction files arbitrary: acc) (simp_all add: array_concat_def)

text \<open>
  C8. If every file of the list exists and parses to an array, \<open>mergeTrainingData\<close>
  returns the arrays of the files appended in the order of the list, each array in
  its own order; the length of the result is the sum of the lengths of the
  arrays.
\<close>

theorem mergeTrainingData_concat:
  assumes "\<forall>f\<in>set files. existsSync env f \<and>
             (\<exists>c. readFileSync env f = Inr c \<and> JSON_parse env c = Inr (JArray (contents f)))"
  shows "mergeTrainingData env files = Inr (concat (map contents files))
         \<and> (\<exists>mergedData. mergeTrainingData env files = Inr mergedData
               \<and> length mergedData = sum_list (map (\<lambda>f. length (contents f)) files))"
proof -
  have "\<forall>f\<in>set files. loadTrainingData env f = Inr (JArray (contents f))"
    using assms by (auto intro: loadTrainingData_array)
  then have "mergeTrainingData env files = Inr (concat (map contents files))"
    using merge_loop_arrays [of files env contents "[]"] by (simp add: mergeTrainingData_def)
  then show ?thesis by (simp add: length_concat comp_def)
qed

theorem mergeTrainingData_concat_witness:
  "mergeTrainingData env_ok [''data/a.json'', ''data/b.json''] = Inr [example_a, example_b, example_c]"
proof -
  have "\<forall>f\<in>set [''data/a.json'', ''data/b.json'']. existsSync env_ok f \<and>
          (\<exists>c. readFileSync env_ok f = Inr c \<and> JSON_parse env_ok c = Inr (JArray (contents_ex f)))"
    by (simp add: env_ok_def contents_ex_def)
  from mergeTrainingData_concat [OF this] show ?thesis
    by (simp add: contents_ex_def)
qed

lemma firing_caught:
  "\<exists>l mm1. firing env cfg tcfg mm modelType now = (Inr l, mm1)"
  by (simp add: firing_def split: prod.splits sum.splits)

lemma firing_not_Inl:
  "firing env cfg tcfg mm modelType now \<noteq> (Inl e, mm1)"
  by (simp add: firing_def split: prod.splits sum.splits)

lemma firing_skips:
  "findTrainingDataFiles env tcfg = Inr [] \<Longrightarrow>
     firing env cfg tcfg mm modelType now = (Inr Skipped, mm)"
  by (simp add: firing_def firing_body_def)

lemma tick_timers:
  "intervals (snd (tick env cfg tcfg tr ident now)) = intervals tr
   \<and> nextIntervalId (snd (tick env cfg tcfg tr ident now)) = nextIntervalId tr
   \<and> running (snd (tick env cfg tcfg tr ident now)) = running tr"
  by (auto simp: tick_def firing_not_Inl split: option.splits prod.splits sum.splits)

lemma tick_skips:
  "findTrainingDataFiles env tcfg = Inr [] \<Longrightarrow> snd (tick env cfg tcfg tr ident now) = tr"
  by (simp add: tick_def firing_skips split: option.splits prod.splits)

lemma tick_fires:
  "running tr \<Longrightarrow> map_of (intervals tr) ident = Some (modelType, interval) \<Longrightarrow>
     \<exists>l. fst (tick env cfg tcfg tr ident now) = Some l"
  using firing_caught [of env cfg tcfg "modelManager tr" modelType now]
  by (auto simp: tick_def)

lemma files_missing: "findTrainingDataFiles env_missing training_ex = Inr []"
  by (simp add: findTrainingDataFiles_def env_missing_def env_ok_def training_ex_def endsWith_def)

lemma files_ok: "findTrainingDataFiles env_ok training_ex = Inr [''data/a.json'', ''data/b.json'']"
  by (simp add: findTrainingDataFiles_def env_ok_def training_ex_def endsWith_def)

lemma files_bad: "findTrainingDataFiles env_bad training_ex = Inr [''data/c.json'']"
  by (simp add: findTrainingDataFiles_def env_bad_def env_ok_def training_ex_def endsWith_def)

lemma merge_bad: "mergeTrainingData env_bad [''data/c.json''] = Inl (Thrown ''EISDIR'')"
  by (simp add: mergeTrainingData_def loadTrainingData_def env_bad_def env_ok_def)

lemma merge_ok:
  "mergeTrainingData env_ok [''data/a.json'', ''data/b.json''] = Inr [example_a, example_b, example_c]"
  by (simp add: mergeTrainingData_def loadTrainingData_def env_ok_def array_concat_def)

lemma prepare_ok:
  "\<exists>xs. prepareTrainingData [example_a, example_b, example_c] name = Inr xs"
  by (simp add: prepare_item_def example_a_def example_b_def example_c_def)

lemma train_each_ok:
  "(\<And>name. \<exists>xs. prepareTrainingData data name = Inr xs) \<Longrightarrow>
     \<exists>rs. train_each ms data opts now acc = Inr rs"
proof (induction ms arbitrary: acc)
  case Nil
  then show ?case by simp
next
  case (Cons a ms)
  obtain n m where a: "a = (n, m)" by (cases a)
  obtain xs where "prepareTrainingData data n = Inr xs" using Cons.prems by blast
  then show ?case using Cons.IH [OF Cons.prems] by (simp add: a train_def)
qed

lemma trainModel_all_ok:
  assumes "\<And>name. \<exists>xs. prepareTrainingData data name = Inr xs"
  shows "\<exists>r mm1. trainModel cfg tcfg mm ''all'' data opts now = (Inr r, mm1)"
proof (cases "initialized mm")
  case True
  obtain rs where "train_each (models mm) data (trainingOptions tcfg ++ opts) now Map.empty = Inr rs"
    using train_each_ok [OF assms] by blast
  then show ?thesis using True
    by (simp add: trainModel_def getAllModels_def toLowerCase_def lower_char_def)
next
  case False
  obtain rs where "train_each (models (snd (init cfg mm))) data (trainingOptions tcfg ++ opts) now
      Map.empty = Inr rs"
    using train_each_ok [OF assms] by blast
  then show ?thesis using False
    by (simp add: trainModel_def getAllModels_def init_def toLowerCase_def lower_char_def)
qed

lemma firing_ok:
  "fst (firing env_ok config_ex training_ex mm ''all'' now) = Inr Completed"
proof -
  obtain r mm1 where "trainModel config_ex training_ex mm ''all'' [example_a, example_b, example_c]
      Map.empty now = (Inr r, mm1)"
    using trainModel_all_ok [OF prepare_ok] by blast
  then show ?thesis
    by (simp add: firing_def firing_body_def files_ok merge_ok)
qed

text \<open>
  C7. No error leaves a firing: whatever the directory scan, the loading, the
  merging or the training throws is caught and logged by that firing. A firing
  that finds no JSON file logs the skip and changes neither the manager nor the
  trainer. No firing removes a timer or stops the process, so when a timer is
  registered its firing runs, and its next firing runs as well, whatever the first
  one met.
\<close>

theorem firing_isolated:
  "(\<exists>l mm1. firing env cfg tcfg mm modelType now = (Inr l, mm1))
   \<and> (findTrainingDataFiles env tcfg = Inr [] \<longrightarrow>
        firing env cfg tcfg mm modelType now = (Inr Skipped, mm)
        \<and> snd (tick env cfg tcfg tr ident now) = tr)
   \<and> intervals (snd (tick env cfg tcfg tr ident now)) = intervals tr
   \<and> running (snd (tick env cfg tcfg tr ident now)) = running tr
   \<and> (running tr \<and> map_of (intervals tr) ident = Some (modelType, interval) \<longrightarrow>
        (\<exists>l. fst (tick env cfg tcfg tr ident now) = Some l)
        \<and> (\<exists>l. fst (tick env' cfg tcfg (snd (tick env cfg tcfg tr ident now)) ident now') = Some l))"
proof -
  have "running tr \<and> map_of (intervals tr) ident = Some (modelType, interval) \<longrightarrow>
        (\<exists>l. fst (tick env' cfg tcfg (snd (tick env cfg tcfg tr ident now)) ident now') = Some l)"
    using tick_timers [of env cfg tcfg tr ident now]
      tick_fires [of "snd (tick env cfg tcfg tr ident now)" ident modelType interval env' cfg tcfg now']
    by simp
  then show ?thesis
    using firing_caught [of env cfg tcfg mm modelType now] firing_skips [of env tcfg cfg mm modelType now]
      tick_skips [of env tcfg cfg tr ident now] tick_timers [of env cfg tcfg tr ident now]
      tick_fires [of tr ident modelType interval env cfg tcfg now]
    by blast
qed

theorem firing_isolated_witness:
  "findTrainingDataFiles env_missing training_ex = Inr []
   \<and> tick env_missing config_ex training_ex trainer_ex 0 ''t1'' = (Some Skipped, trainer_ex)
   \<and> fst (tick env_bad config_ex training_ex trainer_ex 0 ''t1'') = Some (Failed (Thrown ''EISDIR''))
   \<and> fst (tick env_ok config_ex training_ex
            (snd (tick env_bad config_ex training_ex trainer_ex 0 ''t1'')) 0 ''t2'') = Some Completed"
proof -
  have t: "running trainer_ex" "map_of (intervals trainer_ex) 0 = Some (''all'', 100)"
    by (simp_all add: trainer_ex_def schedulePeriodicTraining_def)
  have bad: "firing env_bad config_ex training_ex (modelManager trainer_ex) ''all'' ''t1'' =
      (Inr (Failed (Thrown ''EISDIR'')), modelManager trainer_ex)"
    by (simp add: firing_def firing_body_def files_bad merge_bad)
  have 1: "tick env_missing config_ex training_ex trainer_ex 0 ''t1'' = (Some Skipped, trainer_ex)"
    using firing_isolated [of env_missing config_ex training_ex "modelManager trainer_ex" "''all''" "''t1''"
        trainer_ex 0 100 env_ok "''t2''"] t files_missing
    by (simp add: tick_def)
  have 2: "tick env_bad config_ex training_ex trainer_ex 0 ''t1'' =
      (Some (Failed (Thrown ''EISDIR'')), trainer_ex)"
    using t by (simp add: tick_def bad)
  have 3: "fst (tick env_ok config_ex training_ex trainer_ex 0 ''t2'') = Some Completed"
    using t firing_ok [of "modelManager trainer_ex" "''t2''"]
    by (auto simp: tick_def split: prod.splits sum.splits)
  show ?thesis using 1 2 3 files_missing by simp
qed

end
